theory Spec2Isabelle
  imports Complex_Main "HOL-Library.Log_Nat"
begin

section \<open>Data model of the tracker\<close>

text \<open>
  The embedding follows \<^verbatim>\<open>src/localization/tracking.cpp\<close>. The types the file only
  passes around (OpenCV matrices, 2D and 3D points, tf transforms, the stereo camera
  model) are type parameters: \<open>'m\<close> for \<^verbatim>\<open>cv::Mat\<close>, \<open>'p\<close> for \<^verbatim>\<open>Point2f\<close>,
  \<open>'q\<close> for \<^verbatim>\<open>Point3f\<close>, \<open>'t\<close> for \<^verbatim>\<open>tf::Transform\<close> and \<open>'c\<close> for the camera model.
\<close>

datatype trackingState = NOT_INITIALIZED | INITIALIZING | WORKING

text \<open>
  \<^verbatim>\<open>cv::DMatch\<close>. The matcher is \<^verbatim>\<open>BruteForce-Hamming\<close>, so a distance is a number
  of differing bits: a natural number, which the \<^verbatim>\<open>float\<close> field holds exactly as long
  as it is below \<open>2 ^ 24\<close>.
\<close>

record DMatch =
  queryIdx :: nat
  trainIdx :: nat
  distance :: nat

record 'p KeyPoint =
  pt :: 'p

text \<open>
  Modelled from the spec: the class \<^verbatim>\<open>Frame\<close> is declared outside the source file. The
  fields are the ones behind the accessors the file calls (\<^verbatim>\<open>getLeftDesc\<close>,
  \<^verbatim>\<open>getLeftKp\<close>, \<^verbatim>\<open>getCameraPoints\<close>, \<^verbatim>\<open>setOdometryPose\<close>, \<^verbatim>\<open>setInliers\<close>), and
  \<open>world_points\<close> holds what world-point computation and clustering leave in the frame
  (spec section 6: "3D points in a stable reference frame", "deduplicated/merged point
  set").
\<close>

record ('m, 'p, 'q, 't) Frame =
  left_desc :: 'm
  left_kp :: "'p KeyPoint list"
  camera_points :: "'q list"
  odom_pose :: 't
  inliers_num :: int
  world_points :: "'q list"

text \<open>The member variables of \<^verbatim>\<open>Tracking\<close> that the file reads or writes. A name cannot
  end in an underscore here, so the member \<^verbatim>\<open>state_\<close> is \<open>the_state\<close>, and so on.\<close>

record ('m, 'p, 'q, 't, 'c) Tracking =
  the_state :: trackingState
  the_f_frame :: "('m, 'p, 'q, 't) Frame"
  the_c_frame :: "('m, 'p, 'q, 't) Frame"
  the_reset_fixed_frame :: bool
  the_matches :: "DMatch list"
  the_inliers :: "int list"
  the_rvec :: 'm
  the_tvec :: 'm
  the_odom2camera :: 't
  the_camera_model :: 'c
  the_camera_matrix :: 'm

text \<open>
  The arguments of one call of \<^verbatim>\<open>solvePnPRansac\<close>, in the order of the call at lines
  168 to 171; the literal \<^verbatim>\<open>1.3\<close> is kept as the rational \<open>13 / 10\<close>.
\<close>

record ('m, 'p, 'q) pnp_args =
  objectPoints :: "'q list"
  imagePoints :: "'p list"
  cameraMatrix :: 'm
  distCoeffs :: 'm
  rvec_in :: 'm
  tvec_in :: 'm
  useExtrinsicGuess :: bool
  iterationsCount :: nat
  reprojectionError :: rat
  minInliersCount :: nat

text \<open>
  Calls that leave the tracker: the transform listener, the graph, the pose solver, the
  frame publisher and the map. Every function of the model returns the list of the calls
  it made, in order.
\<close>

datatype ('m, 'p, 'q, 't) event =
    TfLookup
  | GraphSetCamera2Odom 't
  | GraphSetCameraMatrix 'm
  | SolvePnPRansac "('m, 'p, 'q) pnp_args"
  | PublisherUpdate
  | MapAddPoints "('m, 'p, 'q, 't) Frame"

text \<open>
  What the file uses and does not define: the two constants of \<^verbatim>\<open>tracking.h\<close>, the
  constructor and the two world-point methods of \<^verbatim>\<open>Frame\<close>, OpenCV's matcher and pose
  solver (the solver returns the new \<^verbatim>\<open>rvec\<close>, \<^verbatim>\<open>tvec\<close> and the inlier indices), the
  empty matrix \<^verbatim>\<open>Mat()\<close>, and product, inverse and identity of \<^verbatim>\<open>tf::Transform\<close>.
\<close>

record ('m, 'p, 'q, 't, 'c) env =
  MIN_INLIERS :: nat
  MAX_INLIERS :: nat
  Frame_new :: "'m \<Rightarrow> 'm \<Rightarrow> 'c \<Rightarrow> ('m, 'p, 'q, 't) Frame"
  computeWorldPoints :: "('m, 'p, 'q, 't) Frame \<Rightarrow> ('m, 'p, 'q, 't) Frame"
  clusterWorldpoints :: "('m, 'p, 'q, 't) Frame \<Rightarrow> ('m, 'p, 'q, 't) Frame"
  knnMatch :: "'m \<Rightarrow> 'm \<Rightarrow> nat \<Rightarrow> DMatch list list"
  solvePnPRansac :: "('m, 'p, 'q) pnp_args \<Rightarrow> 'm \<times> 'm \<times> int list"
  Mat_empty :: 'm
  tf_mult :: "'t \<Rightarrow> 't \<Rightarrow> 't"
  tf_inverse :: "'t \<Rightarrow> 't"
  tf_identity :: 't

text \<open>
  One synchronized message set, after the conversions of \<^verbatim>\<open>common/tools.h\<close>:
  \<open>odom_tf\<close> is \<^verbatim>\<open>Tools::odomTotf(*odom_msg)\<close>, the images are the result of
  \<^verbatim>\<open>Tools::imgMsgToMat\<close>, \<open>info_model\<close> and \<open>info_matrix\<close> are what
  \<^verbatim>\<open>Tools::getCameraModel\<close> derives from the two camera-info messages, and \<open>tf_lookup\<close>
  is the answer \<^verbatim>\<open>tf_listener_.lookupTransform\<close> gives for this message set, \<open>None\<close>
  when it throws \<^verbatim>\<open>tf::TransformException\<close>.
\<close>

record ('m, 't, 'c) Input =
  odom_tf :: 't
  l_img :: 'm
  r_img :: 'm
  info_model :: 'c
  info_matrix :: 'm
  tf_lookup :: "'t option"

text \<open>Indexing a \<^verbatim>\<open>std::vector\<close> out of range is undefined behaviour: an error of the model.\<close>

datatype error = IndexOutOfRange


section \<open>The ratio test in double precision\<close>

text \<open>
  Line 141 compares \<^verbatim>\<open>knn_matches[m][0].distance <= knn_matches[m][1].distance * ratio\<close>
  with \<^verbatim>\<open>const double ratio = 0.9\<close>. Both distances are converted to \<^verbatim>\<open>double\<close>
  exactly; the literal is the double \<open>8106479329266893 / 2 ^ 53\<close>; the product is
  rounded to 53 significant bits, to nearest, ties to even. All values are kept as
  numerators over \<open>2 ^ 53\<close>.
\<close>

definition ratio_numerator :: nat where
  "ratio_numerator = 8106479329266893"

definition round_double :: "nat \<Rightarrow> nat" where
  "round_double n =
     (if n < 2 ^ 53 then n
      else let k = floorlog 2 n - 53;
               q = n div 2 ^ k;
               r = n mod 2 ^ k
           in (if 2 * r < 2 ^ k \<or> (2 * r = 2 ^ k \<and> even q) then q else q + 1) * 2 ^ k)"

definition ratio_test :: "DMatch \<Rightarrow> DMatch \<Rightarrow> bool" where
  "ratio_test m0 m1 \<longleftrightarrow>
     distance m0 * 2 ^ 53 \<le> round_double (distance m1 * ratio_numerator)"


section \<open>The functions of tracking.cpp\<close>

text \<open>\<^verbatim>\<open>Tracking::getOdom2CameraTf\<close>: the flag returned and the value left in \<^verbatim>\<open>transform\<close>.\<close>

definition getOdom2CameraTf ::
  "('m, 'p, 'q, 't, 'c) env \<Rightarrow> ('m, 't, 'c) Input \<Rightarrow> bool \<times> 't" where
  "getOdom2CameraTf e inp =
     (case tf_lookup inp of
        None \<Rightarrow> (False, tf_identity e)
      | Some tr \<Rightarrow> (True, tr))"

text \<open>The loop of lines 138 to 143; the second argument is \<^verbatim>\<open>matches_\<close> so far.\<close>

fun ratio_filter :: "DMatch list list \<Rightarrow> DMatch list \<Rightarrow> DMatch list" where
  "ratio_filter [] acc = acc"
| "ratio_filter (nn # rest) acc =
     (if length nn < 2 then ratio_filter rest acc
      else if ratio_test (nn ! 0) (nn ! 1) then ratio_filter rest (acc @ [nn ! 0])
      else ratio_filter rest acc)"

text \<open>
  The loop of lines 155 to 160: the three vectors \<^verbatim>\<open>f_matched_kp\<close>,
  \<^verbatim>\<open>f_matched_3d_points\<close> and \<^verbatim>\<open>c_matched_3d_points\<close>.
\<close>

fun collect_matched ::
  "'p KeyPoint list \<Rightarrow> 'q list \<Rightarrow> 'q list \<Rightarrow> DMatch list \<Rightarrow>
   error + ('p list \<times> 'q list \<times> 'q list)" where
  "collect_matched f_kp f_points_3d c_points_3d [] = Inr ([], [], [])"
| "collect_matched f_kp f_points_3d c_points_3d (m # ms) =
     (if trainIdx m < length f_kp \<and> trainIdx m < length f_points_3d
         \<and> queryIdx m < length c_points_3d
      then (case collect_matched f_kp f_points_3d c_points_3d ms of
              Inl err \<Rightarrow> Inl err
            | Inr (kps, fps, cps) \<Rightarrow>
                Inr (pt (f_kp ! trainIdx m) # kps,
                     f_points_3d ! trainIdx m # fps,
                     c_points_3d ! queryIdx m # cps))
      else Inl IndexOutOfRange)"

definition trackCurrentFrame ::
  "('m, 'p, 'q, 't, 'c) env \<Rightarrow> ('m, 'p, 'q, 't, 'c) Tracking \<Rightarrow>
   error + (('m, 'p, 'q, 't) event list \<times> ('m, 'p, 'q, 't, 'c) Tracking)" where
  "trackCurrentFrame e s =
     (let f_desc = left_desc (the_f_frame s);
          c_desc = left_desc (the_c_frame s);
          f_kp = left_kp (the_f_frame s);
          f_points_3d = camera_points (the_f_frame s);
          c_points_3d = camera_points (the_c_frame s);
          knn_matches = knnMatch e c_desc f_desc 2;
          s1 = s\<lparr>the_matches := ratio_filter knn_matches [], the_inliers := []\<rparr>
      in if length (the_matches s1) < MIN_INLIERS e
         then Inr ([], s1\<lparr>the_c_frame := (the_c_frame s1)\<lparr>inliers_num := 0\<rparr>\<rparr>)
         else (case collect_matched f_kp f_points_3d c_points_3d (the_matches s1) of
                 Inl err \<Rightarrow> Inl err
               | Inr (f_matched_kp, f_matched_3d_points, c_matched_3d_points) \<Rightarrow>
                   let use_guess = (if the_reset_fixed_frame s1 then False else True);
                       args = \<lparr>objectPoints = c_matched_3d_points,
                               imagePoints = f_matched_kp,
                               cameraMatrix = the_camera_matrix s1,
                               distCoeffs = Mat_empty e,
                               rvec_in = the_rvec s1,
                               tvec_in = the_tvec s1,
                               useExtrinsicGuess = use_guess,
                               iterationsCount = 100,
                               reprojectionError = 13 / 10,
                               minInliersCount = MAX_INLIERS e\<rparr>
                   in (case solvePnPRansac e args of
                         (rvec, tvec, inl) \<Rightarrow>
                           Inr ([SolvePnPRansac args],
                                s1\<lparr>the_rvec := rvec, the_tvec := tvec, the_inliers := inl,
                                   the_c_frame := (the_c_frame s1)\<lparr>inliers_num := int (length inl)\<rparr>\<rparr>))))"

text \<open>
  \<^verbatim>\<open>Tracking::needNewFixedFrame\<close> in its two blocks. The first block (lines 180 to 194)
  either returns (\<open>Inl\<close>) or falls through (\<open>Inr\<close>) to the second (lines 199 to 210).
\<close>

definition wait_for_initialization ::
  "('m, 'p, 'q, 't, 'c) env \<Rightarrow> ('m, 'p, 'q, 't, 'c) Tracking \<Rightarrow>
   (('m, 'p, 'q, 't) event list \<times> ('m, 'p, 'q, 't, 'c) Tracking)
   + (('m, 'p, 'q, 't) event list \<times> ('m, 'p, 'q, 't, 'c) Tracking)" where
  "wait_for_initialization e s =
     (if the_state s = INITIALIZING then
        (if length (the_inliers s) < MIN_INLIERS e
         then Inl ([], s\<lparr>the_f_frame := the_c_frame s\<rparr>)
         else let f = clusterWorldpoints e (computeWorldPoints e (the_f_frame s))
              in Inr ([MapAddPoints f], s\<lparr>the_f_frame := f, the_state := WORKING\<rparr>))
      else Inr ([], s))"

definition reset_fixed_frame_check ::
  "('m, 'p, 'q, 't, 'c) env \<Rightarrow> ('m, 'p, 'q, 't, 'c) Tracking \<Rightarrow>
   ('m, 'p, 'q, 't) event list \<times> ('m, 'p, 'q, 't, 'c) Tracking" where
  "reset_fixed_frame_check e s =
     (if length (the_inliers s) < MIN_INLIERS e
      then let f = clusterWorldpoints e (computeWorldPoints e (the_c_frame s))
           in ([MapAddPoints f], s\<lparr>the_reset_fixed_frame := True, the_f_frame := f\<rparr>)
      else ([], s\<lparr>the_reset_fixed_frame := False\<rparr>))"

definition needNewFixedFrame ::
  "('m, 'p, 'q, 't, 'c) env \<Rightarrow> ('m, 'p, 'q, 't, 'c) Tracking \<Rightarrow>
   ('m, 'p, 'q, 't) event list \<times> ('m, 'p, 'q, 't, 'c) Tracking" where
  "needNewFixedFrame e s =
     (case wait_for_initialization e s of
        Inl returned \<Rightarrow> returned
      | Inr (ev1, s1) \<Rightarrow>
          (case reset_fixed_frame_check e s1 of (ev2, s2) \<Rightarrow> (ev1 @ ev2, s2)))"

text \<open>\<^verbatim>\<open>Tracking::msgsCallback\<close>, one call per synchronized message set.\<close>

definition msgsCallback ::
  "('m, 'p, 'q, 't, 'c) env \<Rightarrow> ('m, 't, 'c) Input \<Rightarrow> ('m, 'p, 'q, 't, 'c) Tracking \<Rightarrow>
   error + (('m, 'p, 'q, 't) event list \<times> ('m, 'p, 'q, 't, 'c) Tracking)" where
  "msgsCallback e inp s =
     (let c_odom_robot = odom_tf inp in
      if the_state s = NOT_INITIALIZED then
        (case getOdom2CameraTf e inp of
           (ok, tr) \<Rightarrow>
             let s1 = s\<lparr>the_odom2camera := tr\<rparr> in
             if \<not> ok then Inr ([TfLookup], s1)
             else
               let s2 = s1\<lparr>the_camera_model := info_model inp,
                          the_camera_matrix := info_matrix inp\<rparr>;
                   f = Frame_new e (l_img inp) (r_img inp) (the_camera_model s2);
                   c_odom_camera = tf_mult e c_odom_robot (the_odom2camera s2)
               in Inr ([TfLookup,
                        GraphSetCamera2Odom (tf_inverse e (the_odom2camera s2)),
                        GraphSetCameraMatrix (the_camera_matrix s2)],
                       s2\<lparr>the_f_frame := f\<lparr>odom_pose := c_odom_camera\<rparr>,
                          the_state := INITIALIZING\<rparr>))
      else
        let c = Frame_new e (l_img inp) (r_img inp) (the_camera_model s);
            c_odom_camera = tf_mult e c_odom_robot (the_odom2camera s);
            s1 = s\<lparr>the_c_frame := c\<lparr>odom_pose := c_odom_camera\<rparr>\<rparr>
        in (case trackCurrentFrame e s1 of
              Inl err \<Rightarrow> Inl err
            | Inr (ev1, s2) \<Rightarrow>
                (case needNewFixedFrame e s2 of
                   (ev2, s3) \<Rightarrow> Inr (ev1 @ [PublisherUpdate] @ ev2, s3))))"

text \<open>
  A session: the callback runs once per message set, in order. The trace lists, for each
  completed call, the calls it made and the tracker it left; it ends at the first call
  that runs into undefined behaviour.
\<close>

fun run_trace ::
  "('m, 'p, 'q, 't, 'c) env \<Rightarrow> ('m, 'p, 'q, 't, 'c) Tracking \<Rightarrow> ('m, 't, 'c) Input list \<Rightarrow>
   (('m, 'p, 'q, 't) event list \<times> ('m, 'p, 'q, 't, 'c) Tracking) list" where
  "run_trace e s [] = []"
| "run_trace e s (inp # inps) =
     (case msgsCallback e inp s of
        Inl err \<Rightarrow> []
      | Inr (evs, s') \<Rightarrow> (evs, s') # run_trace e s' inps)"

text \<open>
  Names for two values of a tracking call (the \<^verbatim>\<open>else\<close> branch of the callback): the
  current frame as lines 82 to 86 build it, and the correspondences the ratio test accepts
  between it and the fixed frame.
\<close>

definition cycle_frame ::
  "('m, 'p, 'q, 't, 'c) env \<Rightarrow> ('m, 't, 'c) Input \<Rightarrow> ('m, 'p, 'q, 't, 'c) Tracking \<Rightarrow>
   ('m, 'p, 'q, 't) Frame" where
  "cycle_frame e inp s =
     (Frame_new e (l_img inp) (r_img inp) (the_camera_model s))
       \<lparr>odom_pose := tf_mult e (odom_tf inp) (the_odom2camera s)\<rparr>"

definition cycle_matches ::
  "('m, 'p, 'q, 't, 'c) env \<Rightarrow> ('m, 't, 'c) Input \<Rightarrow> ('m, 'p, 'q, 't, 'c) Tracking \<Rightarrow>
   DMatch list" where
  "cycle_matches e inp s =
     ratio_filter (knnMatch e (left_desc (cycle_frame e inp s)) (left_desc (the_f_frame s)) 2) []"

text \<open>The tracker before (\<open>pre\<close>) and after (\<open>post\<close>) the \<open>k\<close>-th call of a session.\<close>

definition pre_state ::
  "('m, 'p, 'q, 't, 'c) env \<Rightarrow> ('m, 'p, 'q, 't, 'c) Tracking \<Rightarrow> ('m, 't, 'c) Input list \<Rightarrow>
   nat \<Rightarrow> ('m, 'p, 'q, 't, 'c) Tracking" where
  "pre_state e s inps k = (s # map snd (run_trace e s inps)) ! k"

definition post_state ::
  "('m, 'p, 'q, 't, 'c) env \<Rightarrow> ('m, 'p, 'q, 't, 'c) Tracking \<Rightarrow> ('m, 't, 'c) Input list \<Rightarrow>
   nat \<Rightarrow> ('m, 'p, 'q, 't, 'c) Tracking" where
  "post_state e s inps k = snd (run_trace e s inps ! k)"

definition calls_of ::
  "('m, 'p, 'q, 't, 'c) env \<Rightarrow> ('m, 'p, 'q, 't, 'c) Tracking \<Rightarrow> ('m, 't, 'c) Input list \<Rightarrow>
   nat \<Rightarrow> ('m, 'p, 'q, 't) event list" where
  "calls_of e s inps k = fst (run_trace e s inps ! k)"

text \<open>
  The \<open>k\<close>-th call of a session is a tracking call whose inlier count reaches the
  threshold.
\<close>

definition reaches_threshold ::
  "('m, 'p, 'q, 't, 'c) env \<Rightarrow> ('m, 'p, 'q, 't, 'c) Tracking \<Rightarrow> ('m, 't, 'c) Input list \<Rightarrow>
   nat \<Rightarrow> bool" where
  "reaches_threshold e s inps k \<longleftrightarrow>
     the_state (pre_state e s inps k) \<noteq> NOT_INITIALIZED
     \<and> MIN_INLIERS e \<le> length (the_inliers (post_state e s inps k))"

text \<open>
  Modelled from the spec: the bodies of \<^verbatim>\<open>Frame::computeWorldPoints\<close> and
  \<^verbatim>\<open>Frame::clusterWorldpoints\<close> are outside the source file. Spec section 3 has a
  frame as an immutable-after-construction snapshot whose only mutable part is the inlier
  count: the two methods return the frame they run on as it is.
\<close>

definition frame_immutable :: "('m, 'p, 'q, 't, 'c) env \<Rightarrow> bool" where
  "frame_immutable e \<longleftrightarrow>
     (\<forall>f. computeWorldPoints e f = f) \<and> (\<forall>f. clusterWorldpoints e f = f)"

text \<open>The solver calls and the frames handed to the map among the calls of a list.\<close>

fun solve_calls :: "('m, 'p, 'q, 't) event list \<Rightarrow> ('m, 'p, 'q) pnp_args list" where
  "solve_calls [] = []"
| "solve_calls (SolvePnPRansac a # evs) = a # solve_calls evs"
| "solve_calls (ev # evs) = solve_calls evs"

fun map_calls :: "('m, 'p, 'q, 't) event list \<Rightarrow> ('m, 'p, 'q, 't) Frame list" where
  "map_calls [] = []"
| "map_calls (MapAddPoints f # evs) = f # map_calls evs"
| "map_calls (ev # evs) = map_calls evs"


section \<open>A small session\<close>

text \<open>
  Concrete collaborators for the examples: matrices, points and camera models are
  numbers, a transform is a translation along a line. An image \<open>l\<close> yields a frame with
  three keypoints and the camera points \<open>l\<close>, \<open>l + 1\<close>, \<open>l + 2\<close>. The matcher finds
  nothing for the image \<open>0\<close> and four candidate lists otherwise, of which the ratio
  test accepts the first two; the solver finds two inliers for the object points
  \<open>[30, 31]\<close> and none otherwise. The threshold \<open>MIN_INLIERS\<close> is 2.
\<close>

definition mk_match :: "nat \<Rightarrow> nat \<Rightarrow> nat \<Rightarrow> DMatch" where
  "mk_match q t d = \<lparr>queryIdx = q, trainIdx = t, distance = d\<rparr>"

definition ex_knn :: "DMatch list list" where
  "ex_knn = [[mk_match 0 0 9, mk_match 0 1 10],
             [mk_match 1 0 3, mk_match 1 1 20],
             [mk_match 2 2 19, mk_match 2 0 20],
             [mk_match 2 1 4]]"

definition ex_accepted :: "DMatch list" where
  "ex_accepted = [mk_match 0 0 9, mk_match 1 0 3]"

definition ex_frame :: "(int, int, int, int) Frame" where
  "ex_frame = \<lparr>left_desc = 0, left_kp = [], camera_points = [], odom_pose = 0,
               inliers_num = 0, world_points = []\<rparr>"

definition ex_image_frame :: "int \<Rightarrow> int \<Rightarrow> int \<Rightarrow> int list \<Rightarrow> (int, int, int, int) Frame" where
  "ex_image_frame l pose n w =
     \<lparr>left_desc = l, left_kp = [\<lparr>pt = 10\<rparr>, \<lparr>pt = 11\<rparr>, \<lparr>pt = 12\<rparr>],
      camera_points = [l, l + 1, l + 2], odom_pose = pose, inliers_num = n,
      world_points = w\<rparr>"

definition ex_env :: "(int, int, int, int, int) env" where
  "ex_env =
     \<lparr>MIN_INLIERS = 2,
      MAX_INLIERS = 5,
      Frame_new = (\<lambda>l r cm. ex_image_frame l 0 0 []),
      computeWorldPoints = (\<lambda>f. f\<lparr>world_points := camera_points f\<rparr>),
      clusterWorldpoints = (\<lambda>f. f\<lparr>world_points := remdups (world_points f)\<rparr>),
      knnMatch = (\<lambda>c f k. if c = 0 then [] else ex_knn),
      solvePnPRansac = (\<lambda>a. (rvec_in a + 1, tvec_in a + 1,
                                if objectPoints a = [30, 31] then [0, 1] else [])),
      Mat_empty = 0,
      tf_mult = (+),
      tf_inverse = uminus,
      tf_identity = 0\<rparr>"

text \<open>
  The same collaborators with world-point methods that leave the frame as it is, and
  with a matcher that answers only when asked for two neighbours of the descriptors 40
  (query) among the descriptors 30 (train).
\<close>

definition ex_env_plain :: "(int, int, int, int, int) env" where
  "ex_env_plain = ex_env\<lparr>computeWorldPoints := (\<lambda>f. f), clusterWorldpoints := (\<lambda>f. f)\<rparr>"

definition ex_env_roles :: "(int, int, int, int, int) env" where
  "ex_env_roles =
     ex_env\<lparr>knnMatch := (\<lambda>c f k. if c = 40 \<and> f = 30 \<and> k = 2 then ex_knn else [])\<rparr>"

definition ex_input :: "int \<Rightarrow> int option \<Rightarrow> (int, int, int) Input" where
  "ex_input l lookup =
     \<lparr>odom_tf = 1, l_img = l, r_img = l, info_model = 7, info_matrix = 8,
      tf_lookup = lookup\<rparr>"

definition ex_solve :: "int \<Rightarrow> int \<Rightarrow> bool \<Rightarrow> (int, int, int) pnp_args" where
  "ex_solve l rv guess =
     \<lparr>objectPoints = [l, l + 1], imagePoints = [10, 10], cameraMatrix = 8,
      distCoeffs = 0, rvec_in = rv, tvec_in = rv, useExtrinsicGuess = guess,
      iterationsCount = 100, reprojectionError = 13 / 10, minInliersCount = 5\<rparr>"

text \<open>
  The tracker as the constructor and the first lines of \<^verbatim>\<open>run\<close> leave it: the reset
  flag is false, the state is \<open>NOT_INITIALIZED\<close>; the other members hold whatever
  their default constructors give (here the transform holds 5).
\<close>

definition ex_tracker :: "(int, int, int, int, int) Tracking" where
  "ex_tracker =
     \<lparr>the_state = NOT_INITIALIZED, the_f_frame = ex_frame, the_c_frame = ex_frame,
      the_reset_fixed_frame = False, the_matches = [], the_inliers = [],
      the_rvec = 0, the_tvec = 0, the_odom2camera = 5, the_camera_model = 0,
      the_camera_matrix = 0\<rparr>"

text \<open>After the message set with image 30 and the transform 2.\<close>

definition ex_initializing :: "(int, int, int, int, int) Tracking" where
  "ex_initializing =
     \<lparr>the_state = INITIALIZING, the_f_frame = ex_image_frame 30 3 0 [],
      the_c_frame = ex_frame, the_reset_fixed_frame = False, the_matches = [],
      the_inliers = [], the_rvec = 0, the_tvec = 0, the_odom2camera = 2,
      the_camera_model = 7, the_camera_matrix = 8\<rparr>"

text \<open>After a second image 30 (two inliers): the tracker is working.\<close>

definition ex_working :: "(int, int, int, int, int) Tracking" where
  "ex_working =
     \<lparr>the_state = WORKING, the_f_frame = ex_image_frame 30 3 0 [30, 31, 32],
      the_c_frame = ex_image_frame 30 3 2 [], the_reset_fixed_frame = False,
      the_matches = ex_accepted, the_inliers = [0, 1], the_rvec = 1, the_tvec = 1,
      the_odom2camera = 2, the_camera_model = 7, the_camera_matrix = 8\<rparr>"

text \<open>After an image 40 (no inlier) while working: the fixed frame is replaced.\<close>

definition ex_replaced :: "(int, int, int, int, int) Tracking" where
  "ex_replaced =
     \<lparr>the_state = WORKING, the_f_frame = ex_image_frame 40 3 0 [40, 41, 42],
      the_c_frame = ex_image_frame 40 3 0 [], the_reset_fixed_frame = True,
      the_matches = ex_accepted, the_inliers = [], the_rvec = 2, the_tvec = 2,
      the_odom2camera = 2, the_camera_model = 7, the_camera_matrix = 8\<rparr>"

text \<open>After an image 0 (no correspondence) while working, following \<open>ex_replaced\<close>.\<close>

definition ex_sparse :: "(int, int, int, int, int) Tracking" where
  "ex_sparse =
     \<lparr>the_state = WORKING, the_f_frame = ex_image_frame 0 3 0 [0, 1, 2],
      the_c_frame = ex_image_frame 0 3 0 [], the_reset_fixed_frame = True,
      the_matches = [], the_inliers = [], the_rvec = 2, the_tvec = 2,
      the_odom2camera = 2, the_camera_model = 7, the_camera_matrix = 8\<rparr>"

text \<open>After an image 40 (no inlier) while still initializing, following \<open>ex_initializing\<close>.\<close>

definition ex_bootstrap :: "(int, int, int, int, int) Tracking" where
  "ex_bootstrap =
     \<lparr>the_state = INITIALIZING, the_f_frame = ex_image_frame 40 3 0 [],
      the_c_frame = ex_image_frame 40 3 0 [], the_reset_fixed_frame = False,
      the_matches = ex_accepted, the_inliers = [], the_rvec = 1, the_tvec = 1,
      the_odom2camera = 2, the_camera_model = 7, the_camera_matrix = 8\<rparr>"


section \<open>The double-precision ratio test is the exact one\<close>

text \<open>
  For Hamming distances that a \<^verbatim>\<open>float\<close> holds exactly, rounding the product to a
  double never changes the outcome of the comparison: it is \<open>10 * d1 \<le> 9 * d2\<close>.
\<close>

lemma round_double_small: "n < 2 ^ 53 \<Longrightarrow> round_double n = n"
  by (simp add: round_double_def)

lemma round_double_lower:
  assumes "2 ^ 53 \<le> n"
  shows "(n div 2 ^ (floorlog 2 n - 53)) * 2 ^ (floorlog 2 n - 53) \<le> round_double n"
  using assms by (simp add: round_double_def Let_def)

lemma round_double_upper:
  assumes "2 ^ 53 \<le> n"
  shows "round_double n \<le> n + 2 ^ (floorlog 2 n - 53)"
proof -
  define k where "k = floorlog 2 n - 53"
  have "(n div 2 ^ k) * 2 ^ k \<le> n"
    by simp
  then have "(n div 2 ^ k + 1) * 2 ^ k \<le> n + 2 ^ k"
    by (simp add: algebra_simps)
  moreover have "round_double n \<le> (n div 2 ^ k + 1) * 2 ^ k"
    using assms by (simp add: round_double_def Let_def k_def)
  ultimately show ?thesis
    unfolding k_def by linarith
qed

lemma floorlog_shift_le:
  assumes "n < 2 ^ 77"
  shows "floorlog 2 n - 53 \<le> 24"
proof -
  have "floorlog 2 n \<le> 77"
    using assms by (simp add: floorlog_le_iff)
  then show ?thesis by simp
qed

lemma ratio_test_exact:
  assumes "d2 < 2 ^ 24"
  shows "d1 * 2 ^ 53 \<le> round_double (d2 * ratio_numerator) \<longleftrightarrow> 10 * d1 \<le> 9 * d2"
proof -
  define n where "n = d2 * ratio_numerator"
  define k where "k = floorlog 2 n - 53"
  have n10: "10 * n = 9 * d2 * 2 ^ 53 + 2 * d2"
    by (simp add: n_def ratio_numerator_def)
  have "n < 2 ^ 24 * 2 ^ 53"
    unfolding n_def ratio_numerator_def using assms by simp
  then have "n < 2 ^ 77" by simp
  then have k24: "k \<le> 24"
    unfolding k_def by (rule floorlog_shift_le)
  then have pk: "(2::nat) ^ k \<le> 2 ^ 24"
    by (rule power_increasing) simp
  have "d1 * 2 ^ 53 \<le> round_double n \<longleftrightarrow> 10 * d1 \<le> 9 * d2"
  proof
    assume le: "d1 * 2 ^ 53 \<le> round_double n"
    show "10 * d1 \<le> 9 * d2"
    proof (rule ccontr)
      assume "\<not> 10 * d1 \<le> 9 * d2"
      then have "9 * d2 + 1 \<le> 10 * d1" by simp
      then have "(9 * d2 + 1) * 2 ^ 53 \<le> 10 * d1 * 2 ^ 53"
        by (rule mult_le_mono1)
      then have gap: "10 * n + 2 ^ 53 \<le> 10 * (d1 * 2 ^ 53) + 2 * d2"
        using n10 by (simp add: algebra_simps)
      have "round_double n \<le> n + 2 ^ 24"
      proof (cases "n < 2 ^ 53")
        case True
        then show ?thesis by (simp add: round_double_small)
      next
        case False
        then have "round_double n \<le> n + 2 ^ k"
          unfolding k_def by (simp add: round_double_upper)
        with pk show ?thesis by linarith
      qed
      with le have "d1 * 2 ^ 53 \<le> n + 2 ^ 24" by linarith
      with gap assms show False by simp
    qed
  next
    assume r: "10 * d1 \<le> 9 * d2"
    then have "10 * d1 * 2 ^ 53 \<le> 9 * d2 * 2 ^ 53"
      by (rule mult_le_mono1)
    with n10 have mn: "d1 * 2 ^ 53 \<le> n" by simp
    show "d1 * 2 ^ 53 \<le> round_double n"
    proof (cases "n < 2 ^ 53")
      case True
      with mn show ?thesis by (simp add: round_double_small)
    next
      case False
      have "53 = (53 - k) + k"
        using k24 by simp
      then have "(2::nat) ^ 53 = 2 ^ ((53 - k) + k)"
        by (rule arg_cong)
      then have split: "d1 * 2 ^ 53 = (d1 * 2 ^ (53 - k)) * 2 ^ k"
        by (simp only: power_add mult.assoc)
      with mn have "(d1 * 2 ^ (53 - k)) * 2 ^ k \<le> n"
        by (simp only:)
      then have "d1 * 2 ^ (53 - k) \<le> n div 2 ^ k"
        by (simp only: less_eq_div_iff_mult_less_eq zero_less_power zero_less_numeral)
      then have "(d1 * 2 ^ (53 - k)) * 2 ^ k \<le> (n div 2 ^ k) * 2 ^ k"
        by (rule mult_le_mono1)
      also have "\<dots> \<le> round_double n"
        using False unfolding k_def by (simp add: round_double_lower)
      finally show ?thesis
        by (simp only: split)
    qed
  qed
  then show ?thesis
    by (simp add: n_def)
qed


section \<open>One call of the callback\<close>

lemma ratio_filter_append: "ratio_filter knn acc = acc @ ratio_filter knn []"
proof (induction knn arbitrary: acc)
  case Nil
  show ?case by simp
next
  case (Cons nn rest)
  have "ratio_filter rest (acc @ [nn ! 0]) = acc @ [nn ! 0] @ ratio_filter rest []"
    using Cons.IH [of "acc @ [nn ! 0]"] by simp
  moreover have "ratio_filter rest [nn ! 0] = [nn ! 0] @ ratio_filter rest []"
    using Cons.IH [of "[nn ! 0]"] by simp
  ultimately show ?case
    using Cons.IH [of acc] by simp
qed

lemma ratio_filter_Cons:
  "ratio_filter (nn # rest) [] =
     (if 2 \<le> length nn \<and> ratio_test (nn ! 0) (nn ! 1) then nn ! 0 # ratio_filter rest []
      else ratio_filter rest [])"
  using ratio_filter_append [of rest "[nn ! 0]"] by (simp add: not_less)

lemma collect_matched_Inr:
  assumes "collect_matched f_kp f_pts c_pts ms = Inr (kps, fps, cps)"
  shows "kps = map (\<lambda>m. pt (f_kp ! trainIdx m)) ms
       \<and> fps = map (\<lambda>m. f_pts ! trainIdx m) ms
       \<and> cps = map (\<lambda>m. c_pts ! queryIdx m) ms"
  using assms
  by (induction ms arbitrary: kps fps cps) (auto split: if_splits sum.splits)

lemma collect_matched_in_range:
  assumes "\<forall>m\<in>set ms. trainIdx m < length f_kp \<and> trainIdx m < length f_pts
             \<and> queryIdx m < length c_pts"
  shows "\<exists>r. collect_matched f_kp f_pts c_pts ms = Inr r"
  using assms by (induction ms) auto

lemma trackCurrentFrame_frame:
  assumes "trackCurrentFrame e s = Inr (evs, s')"
  shows "the_state s' = the_state s" "the_f_frame s' = the_f_frame s"
    "the_reset_fixed_frame s' = the_reset_fixed_frame s"
    "the_odom2camera s' = the_odom2camera s" "the_camera_model s' = the_camera_model s"
    "the_camera_matrix s' = the_camera_matrix s"
    "the_matches s' = ratio_filter (knnMatch e (left_desc (the_c_frame s)) (left_desc (the_f_frame s)) 2) []"
    "the_c_frame s' = (the_c_frame s)\<lparr>inliers_num := int (length (the_inliers s'))\<rparr>"
  using assms
  by (auto simp: trackCurrentFrame_def Let_def split: if_splits sum.splits prod.splits)

lemma trackCurrentFrame_sparse:
  assumes "length (ratio_filter (knnMatch e (left_desc (the_c_frame s)) (left_desc (the_f_frame s)) 2) []) < MIN_INLIERS e"
  shows "trackCurrentFrame e s =
     Inr ([], s\<lparr>the_matches := ratio_filter (knnMatch e (left_desc (the_c_frame s)) (left_desc (the_f_frame s)) 2) [],
               the_inliers := [],
               the_c_frame := (the_c_frame s)\<lparr>inliers_num := 0\<rparr>\<rparr>)"
  using assms by (simp add: trackCurrentFrame_def Let_def)

lemma trackCurrentFrame_solve:
  assumes "trackCurrentFrame e s = Inr (evs, s')"
    and "MIN_INLIERS e \<le> length (the_matches s')"
  shows "evs = [SolvePnPRansac
           \<lparr>objectPoints = map (\<lambda>m. camera_points (the_c_frame s) ! queryIdx m) (the_matches s'),
            imagePoints = map (\<lambda>m. pt (left_kp (the_f_frame s) ! trainIdx m)) (the_matches s'),
            cameraMatrix = the_camera_matrix s,
            distCoeffs = Mat_empty e,
            rvec_in = the_rvec s,
            tvec_in = the_tvec s,
            useExtrinsicGuess = (\<not> the_reset_fixed_frame s),
            iterationsCount = 100,
            reprojectionError = 13 / 10,
            minInliersCount = MAX_INLIERS e\<rparr>]
      \<and> (the_rvec s', the_tvec s', the_inliers s') = solvePnPRansac e (hd (solve_calls evs))"
  using assms
  by (auto simp: trackCurrentFrame_def Let_def dest!: collect_matched_Inr
      split: if_splits sum.splits prod.splits)

lemma needNewFixedFrame_cases:
  "needNewFixedFrame e s =
     (if length (the_inliers s) < MIN_INLIERS e then
        (if the_state s = INITIALIZING then ([], s\<lparr>the_f_frame := the_c_frame s\<rparr>)
         else ([MapAddPoints (clusterWorldpoints e (computeWorldPoints e (the_c_frame s)))],
               s\<lparr>the_reset_fixed_frame := True,
                 the_f_frame := clusterWorldpoints e (computeWorldPoints e (the_c_frame s))\<rparr>))
      else
        (if the_state s = INITIALIZING then
           ([MapAddPoints (clusterWorldpoints e (computeWorldPoints e (the_f_frame s)))],
            s\<lparr>the_f_frame := clusterWorldpoints e (computeWorldPoints e (the_f_frame s)),
              the_state := WORKING, the_reset_fixed_frame := False\<rparr>)
         else ([], s\<lparr>the_reset_fixed_frame := False\<rparr>)))"
  by (simp add: needNewFixedFrame_def wait_for_initialization_def reset_fixed_frame_check_def Let_def)

lemma msgsCallback_tracking:
  assumes "the_state s \<noteq> NOT_INITIALIZED"
  shows "msgsCallback e inp s =
     (case trackCurrentFrame e (s\<lparr>the_c_frame := cycle_frame e inp s\<rparr>) of
        Inl err \<Rightarrow> Inl err
      | Inr (ev1, s2) \<Rightarrow>
          Inr (ev1 @ [PublisherUpdate] @ fst (needNewFixedFrame e s2),
               snd (needNewFixedFrame e s2)))"
  using assms
  by (simp add: msgsCallback_def cycle_frame_def Let_def split: sum.splits prod.splits)

lemma msgsCallback_trackingD:
  assumes "the_state s \<noteq> NOT_INITIALIZED" and "msgsCallback e inp s = Inr (evs, s')"
  obtains ev1 s2 where
    "trackCurrentFrame e (s\<lparr>the_c_frame := cycle_frame e inp s\<rparr>) = Inr (ev1, s2)"
    "evs = ev1 @ [PublisherUpdate] @ fst (needNewFixedFrame e s2)"
    "s' = snd (needNewFixedFrame e s2)"
  using assms by (auto simp: msgsCallback_tracking split: sum.splits)

lemma solve_calls_append: "solve_calls (xs @ ys) = solve_calls xs @ solve_calls ys"
  by (induction xs rule: solve_calls.induct) simp_all

lemma map_calls_append: "map_calls (xs @ ys) = map_calls xs @ map_calls ys"
  by (induction xs rule: map_calls.induct) simp_all

lemma needNewFixedFrame_calls:
  "solve_calls (fst (needNewFixedFrame e s)) = []"
  "TfLookup \<notin> set (fst (needNewFixedFrame e s))"
  by (simp_all add: needNewFixedFrame_cases)

lemma needNewFixedFrame_frame:
  "the_rvec (snd (needNewFixedFrame e s)) = the_rvec s"
  "the_tvec (snd (needNewFixedFrame e s)) = the_tvec s"
  "the_inliers (snd (needNewFixedFrame e s)) = the_inliers s"
  "the_matches (snd (needNewFixedFrame e s)) = the_matches s"
  "the_c_frame (snd (needNewFixedFrame e s)) = the_c_frame s"
  "the_odom2camera (snd (needNewFixedFrame e s)) = the_odom2camera s"
  "the_camera_model (snd (needNewFixedFrame e s)) = the_camera_model s"
  "the_camera_matrix (snd (needNewFixedFrame e s)) = the_camera_matrix s"
  by (simp_all add: needNewFixedFrame_cases)

lemma cycle_matches_tracking:
  "ratio_filter (knnMatch e (left_desc (the_c_frame (s\<lparr>the_c_frame := cycle_frame e inp s\<rparr>)))
       (left_desc (the_f_frame (s\<lparr>the_c_frame := cycle_frame e inp s\<rparr>))) 2) []
   = cycle_matches e inp s"
  by (simp add: cycle_matches_def)

text \<open>What a tracking call leaves, in terms of the tracker it started from.\<close>

lemma msgsCallback_cycle:
  assumes "the_state s \<noteq> NOT_INITIALIZED" and "msgsCallback e inp s = Inr (evs, s')"
  shows "the_matches s' = cycle_matches e inp s"
    and "the_c_frame s' = (cycle_frame e inp s)\<lparr>inliers_num := int (length (the_inliers s'))\<rparr>"
    and "the_odom2camera s' = the_odom2camera s"
    and "the_camera_model s' = the_camera_model s"
    and "the_camera_matrix s' = the_camera_matrix s"
    and "TfLookup \<notin> set evs"
    and "the_state s' \<noteq> NOT_INITIALIZED"
proof -
  from assms obtain ev1 s2 where
    t: "trackCurrentFrame e (s\<lparr>the_c_frame := cycle_frame e inp s\<rparr>) = Inr (ev1, s2)"
    and evs: "evs = ev1 @ [PublisherUpdate] @ fst (needNewFixedFrame e s2)"
    and s': "s' = snd (needNewFixedFrame e s2)"
    by (rule msgsCallback_trackingD)
  note fr = trackCurrentFrame_frame [OF t]
  show "the_matches s' = cycle_matches e inp s"
    using fr(7) by (simp add: s' needNewFixedFrame_frame cycle_matches_def)
  show "the_c_frame s' = (cycle_frame e inp s)\<lparr>inliers_num := int (length (the_inliers s'))\<rparr>"
    using fr(8) by (simp add: s' needNewFixedFrame_frame)
  show "the_odom2camera s' = the_odom2camera s"
    using fr(4) by (simp add: s' needNewFixedFrame_frame)
  show "the_camera_model s' = the_camera_model s"
    using fr(5) by (simp add: s' needNewFixedFrame_frame)
  show "the_camera_matrix s' = the_camera_matrix s"
    using fr(6) by (simp add: s' needNewFixedFrame_frame)
  have "TfLookup \<notin> set ev1"
    using t by (auto simp: trackCurrentFrame_def Let_def split: if_splits sum.splits prod.splits)
  then show "TfLookup \<notin> set evs"
    by (simp add: evs needNewFixedFrame_calls)
  show "the_state s' \<noteq> NOT_INITIALIZED"
    using fr(1) assms(1) by (simp add: s' needNewFixedFrame_cases)
qed

lemma msgsCallback_fixed_frame:
  assumes "the_state s \<noteq> NOT_INITIALIZED" and "msgsCallback e inp s = Inr (evs, s')"
  shows "the_f_frame s' =
       (if length (the_inliers s') < MIN_INLIERS e then
          (if the_state s = INITIALIZING then the_c_frame s'
           else clusterWorldpoints e (computeWorldPoints e (the_c_frame s')))
        else
          (if the_state s = INITIALIZING
           then clusterWorldpoints e (computeWorldPoints e (the_f_frame s))
           else the_f_frame s))"
    and "the_state s' =
       (if the_state s = INITIALIZING \<and> length (the_inliers s') < MIN_INLIERS e
        then INITIALIZING else WORKING)"
    and "the_reset_fixed_frame s' =
       (if length (the_inliers s') < MIN_INLIERS e
        then (the_state s = WORKING \<or> the_reset_fixed_frame s) else False)"
    and "map_calls evs =
       (if length (the_inliers s') < MIN_INLIERS e then
          (if the_state s = INITIALIZING then [] else [the_f_frame s'])
        else (if the_state s = INITIALIZING then [the_f_frame s'] else []))"
proof -
  from assms obtain ev1 s2 where
    t: "trackCurrentFrame e (s\<lparr>the_c_frame := cycle_frame e inp s\<rparr>) = Inr (ev1, s2)"
    and evs: "evs = ev1 @ [PublisherUpdate] @ fst (needNewFixedFrame e s2)"
    and s': "s' = snd (needNewFixedFrame e s2)"
    by (rule msgsCallback_trackingD)
  note fr = trackCurrentFrame_frame [OF t]
  have st: "the_state s = INITIALIZING \<or> the_state s = WORKING"
    using assms(1) by (cases "the_state s") simp_all
  have m1: "map_calls ev1 = []"
    using t by (auto simp: trackCurrentFrame_def Let_def split: if_splits sum.splits prod.splits)
  show "the_f_frame s' =
       (if length (the_inliers s') < MIN_INLIERS e then
          (if the_state s = INITIALIZING then the_c_frame s'
           else clusterWorldpoints e (computeWorldPoints e (the_c_frame s')))
        else
          (if the_state s = INITIALIZING
           then clusterWorldpoints e (computeWorldPoints e (the_f_frame s))
           else the_f_frame s))"
    using fr(1,2) by (simp add: s' needNewFixedFrame_cases)
  show "the_state s' =
       (if the_state s = INITIALIZING \<and> length (the_inliers s') < MIN_INLIERS e
        then INITIALIZING else WORKING)"
    using fr(1) st by (auto simp add: s' needNewFixedFrame_cases)
  show "the_reset_fixed_frame s' =
       (if length (the_inliers s') < MIN_INLIERS e
        then (the_state s = WORKING \<or> the_reset_fixed_frame s) else False)"
    using fr(1,3) st by (auto simp add: s' needNewFixedFrame_cases)
  show "map_calls evs =
       (if length (the_inliers s') < MIN_INLIERS e then
          (if the_state s = INITIALIZING then [] else [the_f_frame s'])
        else (if the_state s = INITIALIZING then [the_f_frame s'] else []))"
    using fr(1) by (simp add: evs s' m1 map_calls_append needNewFixedFrame_cases)
qed

lemma msgsCallback_sparse:
  assumes "the_state s \<noteq> NOT_INITIALIZED"
    and "length (cycle_matches e inp s) < MIN_INLIERS e"
  shows "\<exists>evs s'. msgsCallback e inp s = Inr (evs, s') \<and> solve_calls evs = []
           \<and> the_inliers s' = [] \<and> the_rvec s' = the_rvec s \<and> the_tvec s' = the_tvec s"
proof -
  let ?s1 = "s\<lparr>the_c_frame := cycle_frame e inp s\<rparr>"
  let ?s2 = "?s1\<lparr>the_matches := cycle_matches e inp s, the_inliers := [],
                 the_c_frame := (the_c_frame ?s1)\<lparr>inliers_num := 0\<rparr>\<rparr>"
  have "trackCurrentFrame e ?s1 = Inr ([], ?s2)"
    using assms(2) trackCurrentFrame_sparse [of e ?s1]
    by (simp only: cycle_matches_tracking)
  then have "msgsCallback e inp s =
      Inr ([] @ [PublisherUpdate] @ fst (needNewFixedFrame e ?s2), snd (needNewFixedFrame e ?s2))"
    using assms(1) by (simp add: msgsCallback_tracking)
  moreover have "solve_calls ([] @ [PublisherUpdate] @ fst (needNewFixedFrame e ?s2)) = []"
    by (simp add: needNewFixedFrame_calls)
  moreover have "the_inliers (snd (needNewFixedFrame e ?s2)) = []"
    "the_rvec (snd (needNewFixedFrame e ?s2)) = the_rvec s"
    "the_tvec (snd (needNewFixedFrame e ?s2)) = the_tvec s"
    by (simp_all add: needNewFixedFrame_frame)
  ultimately show ?thesis by blast
qed

lemma msgsCallback_solve:
  assumes "the_state s \<noteq> NOT_INITIALIZED" and "msgsCallback e inp s = Inr (evs, s')"
    and "MIN_INLIERS e \<le> length (cycle_matches e inp s)"
  shows "solve_calls evs =
        [\<lparr>objectPoints = map (\<lambda>m. camera_points (cycle_frame e inp s) ! queryIdx m)
                             (cycle_matches e inp s),
          imagePoints = map (\<lambda>m. pt (left_kp (the_f_frame s) ! trainIdx m))
                            (cycle_matches e inp s),
          cameraMatrix = the_camera_matrix s,
          distCoeffs = Mat_empty e,
          rvec_in = the_rvec s,
          tvec_in = the_tvec s,
          useExtrinsicGuess = (\<not> the_reset_fixed_frame s),
          iterationsCount = 100,
          reprojectionError = 13 / 10,
          minInliersCount = MAX_INLIERS e\<rparr>]"
    and "(the_rvec s', the_tvec s', the_inliers s') = solvePnPRansac e (hd (solve_calls evs))"
proof -
  from assms(1,2) obtain ev1 s2 where
    t: "trackCurrentFrame e (s\<lparr>the_c_frame := cycle_frame e inp s\<rparr>) = Inr (ev1, s2)"
    and evs: "evs = ev1 @ [PublisherUpdate] @ fst (needNewFixedFrame e s2)"
    and s': "s' = snd (needNewFixedFrame e s2)"
    by (rule msgsCallback_trackingD)
  have m: "the_matches s2 = cycle_matches e inp s"
    using trackCurrentFrame_frame(7) [OF t] by (simp add: cycle_matches_def)
  with assms(3) have "MIN_INLIERS e \<le> length (the_matches s2)" by simp
  note sv = trackCurrentFrame_solve [OF t this]
  have sc: "solve_calls evs = solve_calls ev1"
    by (simp add: evs solve_calls_append needNewFixedFrame_calls)
  show "solve_calls evs =
        [\<lparr>objectPoints = map (\<lambda>m. camera_points (cycle_frame e inp s) ! queryIdx m)
                             (cycle_matches e inp s),
          imagePoints = map (\<lambda>m. pt (left_kp (the_f_frame s) ! trainIdx m))
                            (cycle_matches e inp s),
          cameraMatrix = the_camera_matrix s,
          distCoeffs = Mat_empty e,
          rvec_in = the_rvec s,
          tvec_in = the_tvec s,
          useExtrinsicGuess = (\<not> the_reset_fixed_frame s),
          iterationsCount = 100,
          reprojectionError = 13 / 10,
          minInliersCount = MAX_INLIERS e\<rparr>]"
    using sv m by (simp add: sc)
  show "(the_rvec s', the_tvec s', the_inliers s') = solvePnPRansac e (hd (solve_calls evs))"
    using sv by (simp add: sc s' needNewFixedFrame_frame)
qed


text \<open>A call made while \<open>NOT_INITIALIZED\<close> reaches neither the solver nor the map.\<close>

lemma msgsCallback_uninitialized:
  assumes "the_state s = NOT_INITIALIZED" and "msgsCallback e inp s = Inr (evs, s')"
  shows "the_state s' \<noteq> WORKING" and "map_calls evs = []" and "solve_calls evs = []"
  using assms
  by (auto simp: msgsCallback_def getOdom2CameraTf_def Let_def split: option.splits)

text \<open>A tracking call completes when the matcher's indices are within the frames.\<close>

lemma msgsCallback_completes:
  assumes "the_state s \<noteq> NOT_INITIALIZED"
    and "\<forall>m\<in>set (cycle_matches e inp s).
           trainIdx m < length (left_kp (the_f_frame s))
           \<and> trainIdx m < length (camera_points (the_f_frame s))
           \<and> queryIdx m < length (camera_points (cycle_frame e inp s))"
  shows "\<exists>evs s'. msgsCallback e inp s = Inr (evs, s')"
proof -
  from collect_matched_in_range [OF assms(2)] obtain r where
    "collect_matched (left_kp (the_f_frame s)) (camera_points (the_f_frame s))
       (camera_points (cycle_frame e inp s)) (cycle_matches e inp s) = Inr r"
    by blast
  then have "\<exists>ev1 s2. trackCurrentFrame e (s\<lparr>the_c_frame := cycle_frame e inp s\<rparr>) = Inr (ev1, s2)"
    by (cases r) (simp add: trackCurrentFrame_def Let_def cycle_matches_def split: prod.splits)
  then show ?thesis
    using assms(1) by (auto simp: msgsCallback_tracking)
qed


section \<open>Sessions\<close>

lemma run_trace_length: "length (run_trace e s inps) \<le> length inps"
  by (induction inps arbitrary: s) (auto split: sum.splits)

lemma pre_state_0: "pre_state e s inps 0 = s"
  by (simp add: pre_state_def)

lemma pre_state_Suc:
  assumes "k < length (run_trace e s inps)"
  shows "pre_state e s inps (Suc k) = post_state e s inps k"
  using assms by (simp add: pre_state_def post_state_def)

lemma run_trace_Cons_Inr:
  assumes "msgsCallback e inp s = Inr (evs, s1)"
  shows "run_trace e s (inp # inps) = (evs, s1) # run_trace e s1 inps"
    and "pre_state e s (inp # inps) (Suc k) = pre_state e s1 inps k"
    and "post_state e s (inp # inps) (Suc k) = post_state e s1 inps k"
    and "calls_of e s (inp # inps) (Suc k) = calls_of e s1 inps k"
    and "post_state e s (inp # inps) 0 = s1"
    and "calls_of e s (inp # inps) 0 = evs"
  using assms by (simp_all add: pre_state_def post_state_def calls_of_def)

lemma run_trace_step:
  assumes "k < length (run_trace e s inps)"
  shows "msgsCallback e (inps ! k) (pre_state e s inps k) =
           Inr (calls_of e s inps k, post_state e s inps k)"
  using assms
proof (induction inps arbitrary: s k)
  case Nil
  then show ?case by simp
next
  case (Cons inp inps)
  from Cons.prems obtain evs s1 where r: "msgsCallback e inp s = Inr (evs, s1)"
    by (cases "msgsCallback e inp s") auto
  note rs = run_trace_Cons_Inr [OF r]
  show ?case
  proof (cases k)
    case 0
    then show ?thesis
      using r by (simp add: pre_state_0 rs(5,6))
  next
    case (Suc j)
    with Cons.prems r have "j < length (run_trace e s1 inps)"
      by simp
    from Cons.IH [OF this] show ?thesis
      by (simp add: Suc rs(2,3,4))
  qed
qed

text \<open>The tracker is \<open>WORKING\<close> before a call exactly when an earlier call of the
  session was a tracking call that reached the threshold.\<close>

lemma pre_state_working:
  assumes "the_state s \<noteq> WORKING" and "k \<le> length (run_trace e s inps)"
  shows "the_state (pre_state e s inps k) = WORKING \<longleftrightarrow>
           (\<exists>j<k. reaches_threshold e s inps j)"
  using assms(2)
proof (induction k)
  case 0
  show ?case
    using assms(1) by (simp add: pre_state_0)
next
  case (Suc k)
  then have k: "k < length (run_trace e s inps)" by simp
  with Suc.IH have ih: "the_state (pre_state e s inps k) = WORKING \<longleftrightarrow>
           (\<exists>j<k. reaches_threshold e s inps j)"
    by simp
  note step = run_trace_step [OF k]
  have "the_state (post_state e s inps k) = WORKING \<longleftrightarrow>
          the_state (pre_state e s inps k) = WORKING \<or> reaches_threshold e s inps k"
  proof (cases "the_state (pre_state e s inps k) = NOT_INITIALIZED")
    case True
    with msgsCallback_uninitialized(1) [OF True step] show ?thesis
      by (simp add: reaches_threshold_def)
  next
    case False
    then have "the_state (pre_state e s inps k) = INITIALIZING
        \<or> the_state (pre_state e s inps k) = WORKING"
      by (cases "the_state (pre_state e s inps k)") simp_all
    with msgsCallback_fixed_frame(2) [OF False step] False show ?thesis
      by (auto simp: reaches_threshold_def not_less)
  qed
  with ih show ?case
    by (auto simp: pre_state_Suc [OF k] less_Suc_eq)
qed

lemma run_trace_failed_lookups:
  assumes "the_state s = NOT_INITIALIZED"
    and "\<forall>inp\<in>set fails. tf_lookup inp = None"
  shows "run_trace e s (fails @ inps) =
           map (\<lambda>inp. ([TfLookup], s\<lparr>the_odom2camera := tf_identity e\<rparr>)) fails
           @ run_trace e (if fails = [] then s else s\<lparr>the_odom2camera := tf_identity e\<rparr>) inps"
  using assms
proof (induction fails arbitrary: s)
  case Nil
  show ?case by simp
next
  case (Cons inp fails)
  let ?s1 = "s\<lparr>the_odom2camera := tf_identity e\<rparr>"
  have r: "msgsCallback e inp s = Inr ([TfLookup], ?s1)"
    using Cons.prems by (simp add: msgsCallback_def getOdom2CameraTf_def Let_def)
  have "the_state ?s1 = NOT_INITIALIZED" "\<forall>inp\<in>set fails. tf_lookup inp = None"
    using Cons.prems by simp_all
  from Cons.IH [OF this] show ?case
    by (simp add: r)
qed

lemma run_trace_initialized:
  assumes "the_state s \<noteq> NOT_INITIALIZED"
    and "(evs, s') \<in> set (run_trace e s inps)"
  shows "the_odom2camera s' = the_odom2camera s \<and> the_camera_model s' = the_camera_model s
       \<and> the_camera_matrix s' = the_camera_matrix s \<and> TfLookup \<notin> set evs"
  using assms
proof (induction inps arbitrary: s)
  case Nil
  then show ?case by simp
next
  case (Cons inp inps)
  from Cons.prems(2) obtain ev1 s1 where r: "msgsCallback e inp s = Inr (ev1, s1)"
    by (cases "msgsCallback e inp s") auto
  note c = msgsCallback_cycle [OF Cons.prems(1) r]
  from Cons.prems(2) r have "(evs, s') = (ev1, s1) \<or> (evs, s') \<in> set (run_trace e s1 inps)"
    by simp
  then show ?case
  proof
    assume "(evs, s') = (ev1, s1)"
    with c show ?thesis by simp
  next
    assume "(evs, s') \<in> set (run_trace e s1 inps)"
    from Cons.IH [OF c(7) this] c show ?thesis by simp
  qed
qed

lemma sparse_session:
  assumes "the_state s \<noteq> NOT_INITIALIZED"
    and "\<forall>k<length inps.
           length (cycle_matches e (inps ! k) (pre_state e s inps k)) < MIN_INLIERS e"
  shows "length (run_trace e s inps) = length inps
       \<and> (\<forall>k<length inps.
             solve_calls (calls_of e s inps k) = []
             \<and> the_rvec (post_state e s inps k) = the_rvec s
             \<and> the_tvec (post_state e s inps k) = the_tvec s)
       \<and> the_state (pre_state e s inps (length inps)) \<noteq> NOT_INITIALIZED
       \<and> the_rvec (pre_state e s inps (length inps)) = the_rvec s
       \<and> the_tvec (pre_state e s inps (length inps)) = the_tvec s"
  using assms
proof (induction inps arbitrary: s)
  case Nil
  then show ?case by (simp add: pre_state_0)
next
  case (Cons inp inps)
  from Cons.prems(2) have "length (cycle_matches e inp s) < MIN_INLIERS e"
    by (auto simp: pre_state_0)
  from msgsCallback_sparse [OF Cons.prems(1) this] obtain evs s1 where
    r: "msgsCallback e inp s = Inr (evs, s1)" and c: "solve_calls evs = []"
    and v: "the_rvec s1 = the_rvec s" "the_tvec s1 = the_tvec s"
    by blast
  note rs = run_trace_Cons_Inr [OF r]
  have s1: "the_state s1 \<noteq> NOT_INITIALIZED"
    using msgsCallback_cycle(7) [OF Cons.prems(1) r] .
  have "\<forall>k<length inps.
          length (cycle_matches e (inps ! k) (pre_state e s1 inps k)) < MIN_INLIERS e"
  proof (intro allI impI)
    fix k assume "k < length inps"
    then have "Suc k < length (inp # inps)" by simp
    with Cons.prems(2) have
      "length (cycle_matches e ((inp # inps) ! Suc k) (pre_state e s (inp # inps) (Suc k)))
         < MIN_INLIERS e"
      by blast
    then show "length (cycle_matches e (inps ! k) (pre_state e s1 inps k)) < MIN_INLIERS e"
      by (simp add: rs(2))
  qed
  note ih = Cons.IH [OF s1 this]
  have "\<forall>k<length (inp # inps).
             solve_calls (calls_of e s (inp # inps) k) = []
             \<and> the_rvec (post_state e s (inp # inps) k) = the_rvec s
             \<and> the_tvec (post_state e s (inp # inps) k) = the_tvec s"
  proof (intro allI impI)
    fix k assume k: "k < length (inp # inps)"
    show "solve_calls (calls_of e s (inp # inps) k) = []
             \<and> the_rvec (post_state e s (inp # inps) k) = the_rvec s
             \<and> the_tvec (post_state e s (inp # inps) k) = the_tvec s"
    proof (cases k)
      case 0
      then show ?thesis by (simp add: rs(5,6) c v)
    next
      case (Suc j)
      with k have "j < length inps" by simp
      with ih show ?thesis by (simp add: Suc rs(3,4) v)
    qed
  qed
  with ih show ?case
    by (simp add: r rs(2) v)
qed


section \<open>The small session, call by call\<close>

lemma ex_ratio_filter: "ratio_filter ex_knn [] = ex_accepted"
  by (simp add: ex_knn_def ex_accepted_def mk_match_def ratio_test_def round_double_def
      ratio_numerator_def compute_floorlog Let_def)

lemmas ex_states = ex_tracker_def ex_initializing_def ex_working_def ex_replaced_def
  ex_sparse_def ex_bootstrap_def ex_frame_def ex_image_frame_def

lemmas ex_call = msgsCallback_def getOdom2CameraTf_def trackCurrentFrame_def
  needNewFixedFrame_def wait_for_initialization_def reset_fixed_frame_check_def
  ex_env_def ex_input_def ex_solve_def ex_ratio_filter Let_def

lemma ex_call_failed:
  "msgsCallback ex_env (ex_input 30 None) ex_tracker =
     Inr ([TfLookup], ex_tracker\<lparr>the_odom2camera := 0\<rparr>)"
  by (simp add: ex_call ex_states)

lemma ex_call_init:
  "msgsCallback ex_env (ex_input 30 (Some 2)) ex_tracker =
     Inr ([TfLookup, GraphSetCamera2Odom (- 2), GraphSetCameraMatrix 8], ex_initializing)"
  by (simp add: ex_call ex_states)

lemma ex_call_good:
  "msgsCallback ex_env (ex_input 30 None) ex_initializing =
     Inr ([SolvePnPRansac (ex_solve 30 0 True), PublisherUpdate,
           MapAddPoints (ex_image_frame 30 3 0 [30, 31, 32])], ex_working)"
  by (simp add: ex_call ex_states ex_accepted_def mk_match_def)

lemma ex_call_replace:
  "msgsCallback ex_env (ex_input 40 None) ex_working =
     Inr ([SolvePnPRansac (ex_solve 40 1 True), PublisherUpdate,
           MapAddPoints (ex_image_frame 40 3 0 [40, 41, 42])], ex_replaced)"
  by (simp add: ex_call ex_states ex_accepted_def mk_match_def)

lemma ex_call_sparse:
  "msgsCallback ex_env (ex_input 0 None) ex_replaced =
     Inr ([PublisherUpdate, MapAddPoints (ex_image_frame 0 3 0 [0, 1, 2])], ex_sparse)"
  by (simp add: ex_call ex_states ex_accepted_def mk_match_def)

lemma ex_call_bootstrap:
  "msgsCallback ex_env (ex_input 40 None) ex_initializing =
     Inr ([SolvePnPRansac (ex_solve 40 0 True), PublisherUpdate], ex_bootstrap)"
  by (simp add: ex_call ex_states ex_accepted_def mk_match_def)

lemma ex_call_after_bootstrap:
  "msgsCallback ex_env (ex_input 30 None) ex_bootstrap =
     Inr ([SolvePnPRansac (ex_solve 30 1 True), PublisherUpdate,
           MapAddPoints (ex_image_frame 40 3 0 [40, 41, 42])],
          ex_working\<lparr>the_f_frame := ex_image_frame 40 3 0 [40, 41, 42],
                     the_rvec := 2, the_tvec := 2\<rparr>)"
  by (simp add: ex_call ex_states ex_accepted_def mk_match_def)

lemma ex_call_after_sparse:
  "msgsCallback ex_env (ex_input 30 None) ex_sparse =
     Inr ([SolvePnPRansac (ex_solve 30 2 False), PublisherUpdate],
          ex_working\<lparr>the_f_frame := ex_image_frame 0 3 0 [0, 1, 2],
                     the_rvec := 3, the_tvec := 3\<rparr>)"
  by (simp add: ex_call ex_states ex_accepted_def mk_match_def)

lemma ex_cycle_matches:
  "cycle_matches ex_env (ex_input 0 None) ex_replaced = []"
  "cycle_matches ex_env (ex_input 30 None) ex_initializing = ex_accepted"
  "cycle_matches ex_env (ex_input 40 None) ex_working = ex_accepted"
  by (simp_all add: cycle_matches_def cycle_frame_def ex_env_def ex_input_def ex_states ex_ratio_filter)

lemma ex_thresholds: "MIN_INLIERS ex_env = 2" "MAX_INLIERS ex_env = 5"
  by (simp_all add: ex_env_def)

lemma ex_session_bootstrap_whole:
  "run_trace ex_env ex_tracker [ex_input 30 (Some 2), ex_input 40 None, ex_input 30 None] =
     [([TfLookup, GraphSetCamera2Odom (- 2), GraphSetCameraMatrix 8], ex_initializing),
      ([SolvePnPRansac (ex_solve 40 0 True), PublisherUpdate], ex_bootstrap),
      ([SolvePnPRansac (ex_solve 30 1 True), PublisherUpdate,
        MapAddPoints (ex_image_frame 40 3 0 [40, 41, 42])],
       ex_working\<lparr>the_f_frame := ex_image_frame 40 3 0 [40, 41, 42],
                  the_rvec := 2, the_tvec := 2\<rparr>)]"
  by (simp add: ex_call_init ex_call_bootstrap ex_call_after_bootstrap)

lemma ex_call_init_retry:
  "msgsCallback ex_env (ex_input 30 (Some 2)) (ex_tracker\<lparr>the_odom2camera := 0\<rparr>) =
     Inr ([TfLookup, GraphSetCamera2Odom (- 2), GraphSetCameraMatrix 8], ex_initializing)"
  by (simp add: ex_call ex_states)

lemma ex_session_retry:
  "run_trace ex_env ex_tracker [ex_input 30 None, ex_input 30 (Some 2), ex_input 30 None] =
     [([TfLookup], ex_tracker\<lparr>the_odom2camera := 0\<rparr>),
      ([TfLookup, GraphSetCamera2Odom (- 2), GraphSetCameraMatrix 8], ex_initializing),
      ([SolvePnPRansac (ex_solve 30 0 True), PublisherUpdate,
        MapAddPoints (ex_image_frame 30 3 0 [30, 31, 32])], ex_working)]"
  by (simp add: ex_call_failed ex_call_init_retry ex_call_good)


lemma ex_session_replace:
  "run_trace ex_env ex_tracker [ex_input 30 (Some 2), ex_input 30 None, ex_input 40 None] =
     [([TfLookup, GraphSetCamera2Odom (- 2), GraphSetCameraMatrix 8], ex_initializing),
      ([SolvePnPRansac (ex_solve 30 0 True), PublisherUpdate,
        MapAddPoints (ex_image_frame 30 3 0 [30, 31, 32])], ex_working),
      ([SolvePnPRansac (ex_solve 40 1 True), PublisherUpdate,
        MapAddPoints (ex_image_frame 40 3 0 [40, 41, 42])], ex_replaced)]"
  by (simp add: ex_call_init ex_call_good ex_call_replace)

lemma ex_plain_replace:
  "msgsCallback ex_env_plain (ex_input 40 None) ex_working =
     Inr ([SolvePnPRansac (ex_solve 40 1 True), PublisherUpdate,
           MapAddPoints (ex_image_frame 40 3 0 [])],
          ex_replaced\<lparr>the_f_frame := ex_image_frame 40 3 0 []\<rparr>)"
  by (simp add: ex_env_plain_def ex_call ex_states ex_accepted_def mk_match_def)

lemma ex_plain_retain:
  "msgsCallback ex_env_plain (ex_input 30 None) ex_working =
     Inr ([SolvePnPRansac (ex_solve 30 1 True), PublisherUpdate],
          ex_working\<lparr>the_rvec := 2, the_tvec := 2\<rparr>)"
  by (simp add: ex_env_plain_def ex_call ex_states ex_accepted_def mk_match_def)

lemma ex_roles_call:
  "msgsCallback ex_env_roles (ex_input 40 None) ex_initializing =
     Inr ([SolvePnPRansac (ex_solve 40 0 True), PublisherUpdate], ex_bootstrap)"
  by (simp add: ex_env_roles_def ex_call ex_states ex_accepted_def mk_match_def)


section \<open>The claims\<close>

subsection \<open>C1: the fixed frame after a tracking call\<close>

text \<open>
  Claim C1. The world-point methods are the ones of the spec, which leave a frame as it
  is. In a tracking call (state \<open>INITIALIZING\<close> or \<open>WORKING\<close>) the current frame is the
  frame built from the message set, carrying the inlier count of this call. If that count
  is below \<open>MIN_INLIERS\<close>, the fixed frame after the call equals the current frame, by
  value; if it is at least \<open>MIN_INLIERS\<close>, the fixed frame after the call is the fixed
  frame before it.
\<close>

theorem C1_fixed_frame_replacement:
  assumes "the_state s \<noteq> NOT_INITIALIZED"
    and "msgsCallback e inp s = Inr (evs, s')"
    and "frame_immutable e"
  shows "the_c_frame s' = (cycle_frame e inp s)\<lparr>inliers_num := int (length (the_inliers s'))\<rparr>
       \<and> (length (the_inliers s') < MIN_INLIERS e \<longrightarrow> the_f_frame s' = the_c_frame s')
       \<and> (MIN_INLIERS e \<le> length (the_inliers s') \<longrightarrow> the_f_frame s' = the_f_frame s)"
proof -
  have keep: "clusterWorldpoints e (computeWorldPoints e f) = f" for f
    using assms(3) by (simp add: frame_immutable_def)
  note c = msgsCallback_cycle(2) [OF assms(1,2)]
  note f = msgsCallback_fixed_frame(1) [OF assms(1,2)]
  have "length (the_inliers s') < MIN_INLIERS e \<longrightarrow> the_f_frame s' = the_c_frame s'"
    using f by (simp add: keep)
  moreover have "MIN_INLIERS e \<le> length (the_inliers s') \<longrightarrow> the_f_frame s' = the_f_frame s"
    using f by (simp add: keep not_less)
  ultimately show ?thesis
    using c by simp
qed

text \<open>
  The theorem at the working tracker of the small session, once for an image without
  inliers (the fixed frame becomes the current frame) and once for an image with two
  inliers (the fixed frame stays).
\<close>

theorem C1_fixed_frame_replacement_witness:
  "the_state ex_working \<noteq> NOT_INITIALIZED
   \<and> frame_immutable ex_env_plain
   \<and> msgsCallback ex_env_plain (ex_input 40 None) ex_working =
       Inr ([SolvePnPRansac (ex_solve 40 1 True), PublisherUpdate,
             MapAddPoints (ex_image_frame 40 3 0 [])],
            ex_replaced\<lparr>the_f_frame := ex_image_frame 40 3 0 []\<rparr>)
   \<and> length (the_inliers (ex_replaced\<lparr>the_f_frame := ex_image_frame 40 3 0 []\<rparr>))
       < MIN_INLIERS ex_env_plain
   \<and> the_f_frame (ex_replaced\<lparr>the_f_frame := ex_image_frame 40 3 0 []\<rparr>)
       = the_c_frame (ex_replaced\<lparr>the_f_frame := ex_image_frame 40 3 0 []\<rparr>)
   \<and> the_f_frame (ex_replaced\<lparr>the_f_frame := ex_image_frame 40 3 0 []\<rparr>)
       \<noteq> the_f_frame ex_working
   \<and> msgsCallback ex_env_plain (ex_input 30 None) ex_working =
       Inr ([SolvePnPRansac (ex_solve 30 1 True), PublisherUpdate],
            ex_working\<lparr>the_rvec := 2, the_tvec := 2\<rparr>)
   \<and> MIN_INLIERS ex_env_plain
       \<le> length (the_inliers (ex_working\<lparr>the_rvec := 2, the_tvec := 2\<rparr>))
   \<and> the_f_frame (ex_working\<lparr>the_rvec := 2, the_tvec := 2\<rparr>) = the_f_frame ex_working
   \<and> the_f_frame (ex_working\<lparr>the_rvec := 2, the_tvec := 2\<rparr>)
       \<noteq> the_c_frame (ex_working\<lparr>the_rvec := 2, the_tvec := 2\<rparr>)"
proof -
  have h1: "the_state ex_working \<noteq> NOT_INITIALIZED"
    by (simp add: ex_working_def)
  have h3: "frame_immutable ex_env_plain"
    by (simp add: frame_immutable_def ex_env_plain_def)
  have m: "MIN_INLIERS ex_env_plain = 2"
    by (simp add: ex_env_plain_def ex_thresholds)
  have below: "length (the_inliers (ex_replaced\<lparr>the_f_frame := ex_image_frame 40 3 0 []\<rparr>))
       < MIN_INLIERS ex_env_plain"
    by (simp add: m ex_replaced_def)
  have reached: "MIN_INLIERS ex_env_plain
       \<le> length (the_inliers (ex_working\<lparr>the_rvec := 2, the_tvec := 2\<rparr>))"
    by (simp add: m ex_working_def)
  from C1_fixed_frame_replacement [OF h1 ex_plain_replace h3] below
  have replaced: "the_f_frame (ex_replaced\<lparr>the_f_frame := ex_image_frame 40 3 0 []\<rparr>)
       = the_c_frame (ex_replaced\<lparr>the_f_frame := ex_image_frame 40 3 0 []\<rparr>)"
    by blast
  from C1_fixed_frame_replacement [OF h1 ex_plain_retain h3] reached
  have kept: "the_f_frame (ex_working\<lparr>the_rvec := 2, the_tvec := 2\<rparr>) = the_f_frame ex_working"
    by blast
  have new: "the_f_frame (ex_replaced\<lparr>the_f_frame := ex_image_frame 40 3 0 []\<rparr>)
       \<noteq> the_f_frame ex_working"
    by (simp add: ex_working_def ex_image_frame_def)
  have old: "the_f_frame (ex_working\<lparr>the_rvec := 2, the_tvec := 2\<rparr>)
       \<noteq> the_c_frame (ex_working\<lparr>the_rvec := 2, the_tvec := 2\<rparr>)"
    by (simp add: ex_working_def ex_image_frame_def)
  from h1 h3 ex_plain_replace below replaced new ex_plain_retain reached kept old
  show ?thesis
    by (intro conjI)
qed

subsection \<open>C2: the transition to WORKING\<close>

text \<open>
  Claim C2, as the code has it. In a session that does not start in \<open>WORKING\<close> (the
  tracker is constructed \<open>NOT_INITIALIZED\<close>), a call takes the tracker from
  \<open>INITIALIZING\<close> to \<open>WORKING\<close> exactly when it is the first tracking call whose
  inlier count reaches \<open>MIN_INLIERS\<close>: so the transition happens at most once, and once
  if there is such a call. That call runs \<^verbatim>\<open>computeWorldPoints\<close> and
  \<^verbatim>\<open>clusterWorldpoints\<close> on the fixed frame it found, keeps the result as the fixed
  frame and hands it to the map, and nothing else. No earlier call hands anything to the
  map. After the transition the map grows again in exactly the calls whose inlier count
  is below \<open>MIN_INLIERS\<close>: each of them hands over its current frame after the same two
  methods ran on it.
\<close>

theorem C2_single_transition:
  assumes "the_state s \<noteq> WORKING" and "k < length (run_trace e s inps)"
  shows "((the_state (pre_state e s inps k) = INITIALIZING
           \<and> the_state (post_state e s inps k) = WORKING) \<longleftrightarrow>
          (reaches_threshold e s inps k \<and> (\<forall>j<k. \<not> reaches_threshold e s inps j)))
       \<and> map_calls (calls_of e s inps k) =
           (if reaches_threshold e s inps k \<and> (\<forall>j<k. \<not> reaches_threshold e s inps j)
            then [clusterWorldpoints e
                    (computeWorldPoints e (the_f_frame (pre_state e s inps k)))]
            else if (\<exists>j<k. reaches_threshold e s inps j)
                    \<and> length (the_inliers (post_state e s inps k)) < MIN_INLIERS e
            then [clusterWorldpoints e
                    (computeWorldPoints e (the_c_frame (post_state e s inps k)))]
            else [])
       \<and> (reaches_threshold e s inps k \<and> (\<forall>j<k. \<not> reaches_threshold e s inps j) \<longrightarrow>
            the_f_frame (post_state e s inps k) =
              clusterWorldpoints e (computeWorldPoints e (the_f_frame (pre_state e s inps k))))"
proof -
  from assms(2) have "k \<le> length (run_trace e s inps)" by simp
  note pre = pre_state_working [OF assms(1) this]
  note step = run_trace_step [OF assms(2)]
  show ?thesis
  proof (cases "the_state (pre_state e s inps k) = NOT_INITIALIZED")
    case True
    with pre msgsCallback_uninitialized [OF True step] show ?thesis
      by (simp add: reaches_threshold_def)
  next
    case False
    then have st: "the_state (pre_state e s inps k) = INITIALIZING
        \<or> the_state (pre_state e s inps k) = WORKING"
      by (cases "the_state (pre_state e s inps k)") simp_all
    note ff = msgsCallback_fixed_frame [OF False step]
    have r: "reaches_threshold e s inps k \<longleftrightarrow>
        MIN_INLIERS e \<le> length (the_inliers (post_state e s inps k))"
      using False by (simp add: reaches_threshold_def)
    from st show ?thesis
    proof
      assume i: "the_state (pre_state e s inps k) = INITIALIZING"
      with pre have none: "\<forall>j<k. \<not> reaches_threshold e s inps j"
        by auto
      then have nex: "\<not> (\<exists>j<k. reaches_threshold e s inps j)"
        by blast
      show ?thesis
        using ff(1) ff(2) ff(4) i by (simp add: r none nex not_less)
    next
      assume w: "the_state (pre_state e s inps k) = WORKING"
      with pre have ex: "\<exists>j<k. reaches_threshold e s inps j"
        by simp
      then have nall: "\<not> (\<forall>j<k. \<not> reaches_threshold e s inps j)"
        by blast
      show ?thesis
        using ff(1) ff(4) w by (simp add: r ex nall not_less)
    qed
  qed
qed

text \<open>
  The theorem at the third call of a session: the first call initializes, the second
  finds no inlier and replaces the fixed frame, the third finds two inliers.
\<close>

theorem C2_single_transition_witness:
  "the_state ex_tracker \<noteq> WORKING
   \<and> length (run_trace ex_env ex_tracker
               [ex_input 30 (Some 2), ex_input 40 None, ex_input 30 None]) = 3
   \<and> \<not> reaches_threshold ex_env ex_tracker
               [ex_input 30 (Some 2), ex_input 40 None, ex_input 30 None] 0
   \<and> \<not> reaches_threshold ex_env ex_tracker
               [ex_input 30 (Some 2), ex_input 40 None, ex_input 30 None] 1
   \<and> reaches_threshold ex_env ex_tracker
               [ex_input 30 (Some 2), ex_input 40 None, ex_input 30 None] 2
   \<and> the_state (pre_state ex_env ex_tracker
               [ex_input 30 (Some 2), ex_input 40 None, ex_input 30 None] 2) = INITIALIZING
   \<and> the_state (post_state ex_env ex_tracker
               [ex_input 30 (Some 2), ex_input 40 None, ex_input 30 None] 2) = WORKING
   \<and> the_f_frame (pre_state ex_env ex_tracker
               [ex_input 30 (Some 2), ex_input 40 None, ex_input 30 None] 2)
       = ex_image_frame 40 3 0 []
   \<and> clusterWorldpoints ex_env (computeWorldPoints ex_env (ex_image_frame 40 3 0 []))
       = ex_image_frame 40 3 0 [40, 41, 42]
   \<and> map_calls (calls_of ex_env ex_tracker
               [ex_input 30 (Some 2), ex_input 40 None, ex_input 30 None] 1) = []
   \<and> map_calls (calls_of ex_env ex_tracker
               [ex_input 30 (Some 2), ex_input 40 None, ex_input 30 None] 2)
       = [ex_image_frame 40 3 0 [40, 41, 42]]
   \<and> the_f_frame (post_state ex_env ex_tracker
               [ex_input 30 (Some 2), ex_input 40 None, ex_input 30 None] 2)
       = ex_image_frame 40 3 0 [40, 41, 42]"
proof -
  let ?S = "[ex_input 30 (Some 2), ex_input 40 None, ex_input 30 None]"
  have h1: "the_state ex_tracker \<noteq> WORKING"
    by (simp add: ex_tracker_def)
  have len: "length (run_trace ex_env ex_tracker ?S) = 3"
    unfolding ex_session_bootstrap_whole by simp
  have k1: "1 < length (run_trace ex_env ex_tracker ?S)"
    and k2: "2 < length (run_trace ex_env ex_tracker ?S)"
    unfolding ex_session_bootstrap_whole by simp_all
  have r0: "\<not> reaches_threshold ex_env ex_tracker ?S 0"
    unfolding reaches_threshold_def pre_state_def post_state_def ex_session_bootstrap_whole
    by (simp add: ex_tracker_def)
  have r1: "\<not> reaches_threshold ex_env ex_tracker ?S 1"
    unfolding reaches_threshold_def pre_state_def post_state_def ex_session_bootstrap_whole
    by (simp add: ex_thresholds ex_bootstrap_def)
  have r2: "reaches_threshold ex_env ex_tracker ?S 2"
    unfolding reaches_threshold_def pre_state_def post_state_def ex_session_bootstrap_whole
    by (simp add: ex_thresholds ex_bootstrap_def ex_working_def)
  have none1: "\<forall>j<1. \<not> reaches_threshold ex_env ex_tracker ?S j"
    using r0 by simp
  have none2: "\<forall>j<2. \<not> reaches_threshold ex_env ex_tracker ?S j"
  proof (intro allI impI)
    fix j :: nat
    assume "j < 2"
    then have "j = 0 \<or> j = 1" by auto
    with r0 r1 show "\<not> reaches_threshold ex_env ex_tracker ?S j" by auto
  qed
  have nex1: "\<not> (\<exists>j<1. reaches_threshold ex_env ex_tracker ?S j)"
    using none1 by blast
  have pre2: "the_f_frame (pre_state ex_env ex_tracker ?S 2) = ex_image_frame 40 3 0 []"
    unfolding pre_state_def ex_session_bootstrap_whole by (simp add: ex_bootstrap_def)
  have grow: "clusterWorldpoints ex_env (computeWorldPoints ex_env (ex_image_frame 40 3 0 []))
       = ex_image_frame 40 3 0 [40, 41, 42]"
    by (simp add: ex_env_def ex_image_frame_def)
  have c1: "(reaches_threshold ex_env ex_tracker ?S 1
        \<and> (\<forall>j<1. \<not> reaches_threshold ex_env ex_tracker ?S j)) = False"
    using r1 by blast
  have d1: "((\<exists>j<1. reaches_threshold ex_env ex_tracker ?S j)
        \<and> length (the_inliers (post_state ex_env ex_tracker ?S 1)) < MIN_INLIERS ex_env)
       = False"
    using nex1 by blast
  have c2: "(reaches_threshold ex_env ex_tracker ?S 2
        \<and> (\<forall>j<2. \<not> reaches_threshold ex_env ex_tracker ?S j)) = True"
    using r2 none2 by blast
  note t1 = C2_single_transition [OF h1 k1]
  note t2 = C2_single_transition [OF h1 k2]
  from t1 have m1: "map_calls (calls_of ex_env ex_tracker ?S 1) = []"
    by (simp only: c1 d1 if_False simp_thms)
  from t2 have tr: "the_state (pre_state ex_env ex_tracker ?S 2) = INITIALIZING
       \<and> the_state (post_state ex_env ex_tracker ?S 2) = WORKING"
    by (simp only: c2 simp_thms)
  from t2 have m2: "map_calls (calls_of ex_env ex_tracker ?S 2)
       = [ex_image_frame 40 3 0 [40, 41, 42]]"
    by (simp only: c2 if_True simp_thms pre2 grow)
  from t2 have f2: "the_f_frame (post_state ex_env ex_tracker ?S 2)
       = ex_image_frame 40 3 0 [40, 41, 42]"
    by (simp only: c2 simp_thms pre2 grow)
  from h1 len r0 r1 r2 tr pre2 grow m1 m2 f2 show ?thesis
    by (intro conjI) simp_all
qed

text \<open>
  Claim C2 as it is worded (map growth on exactly the transition call) fails at a session
  of three message sets. The second call is the transition and hands the fixed frame to
  the map. The third call starts and ends in \<open>WORKING\<close>, finds no inlier, and hands a
  frame to the map again (lines 199 to 205).
\<close>

theorem C2_counterexample:
  "run_trace ex_env ex_tracker [ex_input 30 (Some 2), ex_input 30 None, ex_input 40 None] =
     [([TfLookup, GraphSetCamera2Odom (- 2), GraphSetCameraMatrix 8], ex_initializing),
      ([SolvePnPRansac (ex_solve 30 0 True), PublisherUpdate,
        MapAddPoints (ex_image_frame 30 3 0 [30, 31, 32])], ex_working),
      ([SolvePnPRansac (ex_solve 40 1 True), PublisherUpdate,
        MapAddPoints (ex_image_frame 40 3 0 [40, 41, 42])], ex_replaced)]
   \<and> the_state ex_initializing = INITIALIZING
   \<and> the_state ex_working = WORKING
   \<and> the_state ex_replaced = WORKING
   \<and> map_calls (calls_of ex_env ex_tracker
        [ex_input 30 (Some 2), ex_input 30 None, ex_input 40 None] 1)
       = [ex_image_frame 30 3 0 [30, 31, 32]]
   \<and> map_calls (calls_of ex_env ex_tracker
        [ex_input 30 (Some 2), ex_input 30 None, ex_input 40 None] 2)
       = [ex_image_frame 40 3 0 [40, 41, 42]]"
  unfolding calls_of_def ex_session_replace
  by (simp add: ex_initializing_def ex_working_def ex_replaced_def)

subsection \<open>C3: the warm-start hint after a replacement\<close>

text \<open>
  What the code does with the hint, for two consecutive tracking calls of which the second
  runs the solver. The hint is supplied unless the first call replaced the fixed frame
  while \<open>WORKING\<close>; a replacement while \<open>INITIALIZING\<close> leaves the flag as it was.
\<close>

lemma hint_of_next_call:
  assumes "the_state s \<noteq> NOT_INITIALIZED"
    and "msgsCallback e inp s = Inr (evs, s1)"
    and "msgsCallback e inp2 s1 = Inr (evs2, s2)"
    and "MIN_INLIERS e \<le> length (cycle_matches e inp2 s1)"
  shows "map useExtrinsicGuess (solve_calls evs2) =
           [\<not> (length (the_inliers s1) < MIN_INLIERS e
                \<and> (the_state s = WORKING \<or> the_reset_fixed_frame s))]"
proof -
  have s1: "the_state s1 \<noteq> NOT_INITIALIZED"
    using msgsCallback_cycle(7) [OF assms(1,2)] .
  have "map useExtrinsicGuess (solve_calls evs2) = [\<not> the_reset_fixed_frame s1]"
    by (simp add: msgsCallback_solve(1) [OF s1 assms(3,4)])
  then show ?thesis
    by (simp add: msgsCallback_fixed_frame(3) [OF assms(1,2)])
qed

lemma reset_flag_only_while_working:
  assumes "the_state s \<noteq> WORKING \<longrightarrow> \<not> the_reset_fixed_frame s"
    and "msgsCallback e inp s = Inr (evs, s')"
  shows "the_state s' \<noteq> WORKING \<longrightarrow> \<not> the_reset_fixed_frame s'"
proof (cases "the_state s = NOT_INITIALIZED")
  case True
  with assms show ?thesis
    by (auto simp: msgsCallback_def getOdom2CameraTf_def Let_def split: option.splits)
next
  case False
  note ff = msgsCallback_fixed_frame [OF False assms(2)]
  from assms(1) ff(2) ff(3) show ?thesis
    by (auto split: if_splits)
qed

lemma bootstrap_replacement_keeps_hint:
  assumes "the_state s = INITIALIZING" and "\<not> the_reset_fixed_frame s"
    and "msgsCallback e inp s = Inr (evs, s1)"
    and "length (the_inliers s1) < MIN_INLIERS e"
    and "msgsCallback e inp2 s1 = Inr (evs2, s2)"
    and "MIN_INLIERS e \<le> length (cycle_matches e inp2 s1)"
  shows "the_f_frame s1 = the_c_frame s1
       \<and> map useExtrinsicGuess (solve_calls evs2) = [True]"
proof -
  have ni: "the_state s \<noteq> NOT_INITIALIZED"
    using assms(1) by simp
  have "the_f_frame s1 = the_c_frame s1"
    using msgsCallback_fixed_frame(1) [OF ni assms(3)] assms(1,4) by simp
  moreover have "map useExtrinsicGuess (solve_calls evs2) = [True]"
    using hint_of_next_call [OF ni assms(3,5,6)] assms(1,2) by simp
  ultimately show ?thesis by simp
qed

text \<open>
  Claim C3 at a session of three message sets. The second call replaces the fixed frame
  while initializing (no inlier), leaves through the early return of line 185 and so
  does not raise \<^verbatim>\<open>reset_fixed_frame_\<close>; the solver call of the third call is made with
  \<open>useExtrinsicGuess = True\<close>.
\<close>

theorem C3_hint_kept_after_bootstrap_replacement:
  "run_trace ex_env ex_tracker [ex_input 30 (Some 2), ex_input 40 None, ex_input 30 None] =
     [([TfLookup, GraphSetCamera2Odom (- 2), GraphSetCameraMatrix 8], ex_initializing),
      ([SolvePnPRansac (ex_solve 40 0 True), PublisherUpdate], ex_bootstrap),
      ([SolvePnPRansac (ex_solve 30 1 True), PublisherUpdate,
        MapAddPoints (ex_image_frame 40 3 0 [40, 41, 42])],
       ex_working\<lparr>the_f_frame := ex_image_frame 40 3 0 [40, 41, 42],
                  the_rvec := 2, the_tvec := 2\<rparr>)]
   \<and> the_state ex_initializing = INITIALIZING
   \<and> length (the_inliers ex_bootstrap) < MIN_INLIERS ex_env
   \<and> the_f_frame ex_bootstrap = the_c_frame ex_bootstrap
   \<and> the_f_frame ex_bootstrap \<noteq> the_f_frame ex_initializing
   \<and> the_reset_fixed_frame ex_bootstrap = False
   \<and> map useExtrinsicGuess
         (solve_calls (calls_of ex_env ex_tracker
            [ex_input 30 (Some 2), ex_input 40 None, ex_input 30 None] 2)) = [True]"
  unfolding calls_of_def ex_session_bootstrap_whole
  by (simp add: ex_states ex_thresholds ex_solve_def)

subsection \<open>C4: the ratio test\<close>

text \<open>
  The loop of lines 138 to 143 on any candidate lists whose second distances a
  \<^verbatim>\<open>float\<close> holds exactly.
\<close>

lemma ratio_filter_exact:
  assumes "\<forall>nn\<in>set knn. 2 \<le> length nn \<longrightarrow> distance (nn ! 1) < 2 ^ 24"
  shows "ratio_filter knn [] =
           map (\<lambda>nn. nn ! 0)
             (filter (\<lambda>nn. 2 \<le> length nn \<and> 10 * distance (nn ! 0) \<le> 9 * distance (nn ! 1))
                knn)"
  using assms
proof (induction knn)
  case Nil
  show ?case by simp
next
  case (Cons nn rest)
  then have ih: "ratio_filter rest [] =
           map (\<lambda>nn. nn ! 0)
             (filter (\<lambda>nn. 2 \<le> length nn \<and> 10 * distance (nn ! 0) \<le> 9 * distance (nn ! 1))
                rest)"
    by simp
  show ?case
  proof (cases "2 \<le> length nn")
    case True
    with Cons.prems have "distance (nn ! 1) < 2 ^ 24" by simp
    then have "ratio_test (nn ! 0) (nn ! 1) \<longleftrightarrow> 10 * distance (nn ! 0) \<le> 9 * distance (nn ! 1)"
      unfolding ratio_test_def by (rule ratio_test_exact)
    then show ?thesis
      by (simp add: ratio_filter_Cons ih del: ratio_filter.simps)
  next
    case False
    then show ?thesis
      by (simp add: ratio_filter_Cons ih del: ratio_filter.simps)
  qed
qed

text \<open>
  Claim C4. In a tracking call the matcher is asked for the two nearest neighbours of
  each descriptor of the current frame among the descriptors of the fixed frame. The
  correspondences \<^verbatim>\<open>matches_\<close> the call leaves are, in the order of the candidate lists
  the matcher returns (one per descriptor of the current frame), the first candidate of
  each list that has at least two candidates and whose distance \<open>d1\<close> satisfies
  \<open>10 * d1 \<le> 9 * d2\<close>, that is \<open>d1 \<le> 0.9 * d2\<close>, for the distance \<open>d2\<close> of the
  second candidate; equality is accepted, shorter lists are skipped, and nothing is removed
  when two correspondences name the same fixed-frame index. The distances are Hamming
  distances below \<open>2 ^ 24\<close>, which the \<^verbatim>\<open>float\<close> field holds exactly.
\<close>

theorem C4_ratio_test:
  assumes "the_state s \<noteq> NOT_INITIALIZED"
    and "msgsCallback e inp s = Inr (evs, s')"
    and "\<forall>nn\<in>set (knnMatch e (left_desc (cycle_frame e inp s)) (left_desc (the_f_frame s)) 2).
           2 \<le> length nn \<longrightarrow> distance (nn ! 1) < 2 ^ 24"
  shows "the_matches s' =
           map (\<lambda>nn. nn ! 0)
             (filter (\<lambda>nn. 2 \<le> length nn \<and> 10 * distance (nn ! 0) \<le> 9 * distance (nn ! 1))
                (knnMatch e (left_desc (cycle_frame e inp s)) (left_desc (the_f_frame s)) 2))"
proof -
  have "the_matches s' = cycle_matches e inp s"
    using msgsCallback_cycle(1) [OF assms(1,2)] .
  then show ?thesis
    unfolding cycle_matches_def using ratio_filter_exact [OF assms(3)] by simp
qed

text \<open>
  The theorem at a call whose current frame has the descriptors 40 and whose fixed frame
  has the descriptors 30, with a matcher that answers only for this query and this train
  set. Of its four candidate lists, 9 against 10 is accepted (the boundary), 3 against 20
  is accepted for the same fixed-frame index 0, 19 against 20 is rejected, and the list
  with one candidate is skipped.
\<close>

theorem C4_ratio_test_witness:
  "the_state ex_initializing \<noteq> NOT_INITIALIZED
   \<and> msgsCallback ex_env_roles (ex_input 40 None) ex_initializing =
       Inr ([SolvePnPRansac (ex_solve 40 0 True), PublisherUpdate], ex_bootstrap)
   \<and> left_desc (cycle_frame ex_env_roles (ex_input 40 None) ex_initializing) = 40
   \<and> left_desc (the_f_frame ex_initializing) = 30
   \<and> knnMatch ex_env_roles 40 30 2 = ex_knn
   \<and> knnMatch ex_env_roles 30 40 2 = []
   \<and> list_all (\<lambda>nn. 2 \<le> length nn \<longrightarrow> distance (nn ! 1) < 2 ^ 24) ex_knn
   \<and> the_matches ex_bootstrap = [mk_match 0 0 9, mk_match 1 0 3]
   \<and> map (\<lambda>nn. nn ! 0)
       (filter (\<lambda>nn. 2 \<le> length nn \<and> 10 * distance (nn ! 0) \<le> 9 * distance (nn ! 1))
          ex_knn) = [mk_match 0 0 9, mk_match 1 0 3]"
proof -
  have h1: "the_state ex_initializing \<noteq> NOT_INITIALIZED"
    by (simp add: ex_initializing_def)
  have c: "left_desc (cycle_frame ex_env_roles (ex_input 40 None) ex_initializing) = 40"
    by (simp add: cycle_frame_def ex_env_roles_def ex_env_def ex_input_def ex_image_frame_def)
  have f: "left_desc (the_f_frame ex_initializing) = 30"
    by (simp add: ex_initializing_def ex_image_frame_def)
  have k: "knnMatch ex_env_roles 40 30 2 = ex_knn" "knnMatch ex_env_roles 30 40 2 = []"
    by (simp_all add: ex_env_roles_def)
  have l: "list_all (\<lambda>nn. 2 \<le> length nn \<longrightarrow> distance (nn ! 1) < 2 ^ 24) ex_knn"
    by (simp add: ex_knn_def mk_match_def)
  then have h3: "\<forall>nn\<in>set (knnMatch ex_env_roles
        (left_desc (cycle_frame ex_env_roles (ex_input 40 None) ex_initializing))
        (left_desc (the_f_frame ex_initializing)) 2).
      2 \<le> length nn \<longrightarrow> distance (nn ! 1) < 2 ^ 24"
    unfolding c f k by (simp add: list_all_iff)
  have m: "the_matches ex_bootstrap = [mk_match 0 0 9, mk_match 1 0 3]"
    by (simp add: ex_bootstrap_def ex_accepted_def)
  show ?thesis
    using C4_ratio_test [OF h1 ex_roles_call h3] h1 ex_roles_call l m
    unfolding c f k by simp
qed

subsection \<open>C5: too few correspondences\<close>

text \<open>
  Claim C5. A tracking call whose accepted correspondences are fewer than
  \<open>MIN_INLIERS\<close> completes without an error, makes no solver call, and leaves an empty
  inlier set and the inlier count 0 in the current frame, whatever the frames hold.
\<close>

theorem C5_sparse_matches_skip_solver:
  assumes "the_state s \<noteq> NOT_INITIALIZED"
    and "length (cycle_matches e inp s) < MIN_INLIERS e"
  shows "\<exists>evs s'. msgsCallback e inp s = Inr (evs, s')
           \<and> solve_calls evs = []
           \<and> the_inliers s' = []
           \<and> inliers_num (the_c_frame s') = 0"
proof -
  from msgsCallback_sparse [OF assms] obtain evs s' where
    r: "msgsCallback e inp s = Inr (evs, s')" and c: "solve_calls evs = []"
    and i: "the_inliers s' = []"
    by blast
  have "inliers_num (the_c_frame s') = 0"
    using msgsCallback_cycle(2) [OF assms(1) r] i by simp
  with r c i show ?thesis by blast
qed

text \<open>
  The theorem at the image without correspondences.
\<close>

theorem C5_sparse_matches_skip_solver_witness:
  "the_state ex_replaced \<noteq> NOT_INITIALIZED
   \<and> length (cycle_matches ex_env (ex_input 0 None) ex_replaced) < MIN_INLIERS ex_env
   \<and> (\<exists>evs s'. msgsCallback ex_env (ex_input 0 None) ex_replaced = Inr (evs, s')
           \<and> solve_calls evs = []
           \<and> the_inliers s' = []
           \<and> inliers_num (the_c_frame s') = 0)"
proof -
  have h1: "the_state ex_replaced \<noteq> NOT_INITIALIZED"
    by (simp add: ex_replaced_def)
  have h2: "length (cycle_matches ex_env (ex_input 0 None) ex_replaced) < MIN_INLIERS ex_env"
    by (simp add: ex_cycle_matches ex_thresholds)
  from C5_sparse_matches_skip_solver [OF h1 h2] h1 h2 show ?thesis
    by (intro conjI)
qed

subsection \<open>C6: a failed transform lookup\<close>

text \<open>
  Claim C6. While \<open>NOT_INITIALIZED\<close>, a message set whose transform lookup fails
  makes the lookup and no other call, and changes nothing in the tracker but the
  transform, which \<^verbatim>\<open>getOdom2CameraTf\<close> has set to the identity: the state, both frames,
  the camera model and the camera matrix are as before. A later message set whose lookup
  succeeds then initializes the tracker.
\<close>

theorem C6_failed_lookup_keeps_uninitialized:
  assumes "the_state s = NOT_INITIALIZED"
    and "tf_lookup inp = None"
    and "tf_lookup inp2 = Some t"
  shows "msgsCallback e inp s = Inr ([TfLookup], s\<lparr>the_odom2camera := tf_identity e\<rparr>)
       \<and> msgsCallback e inp2 (s\<lparr>the_odom2camera := tf_identity e\<rparr>) =
           Inr ([TfLookup, GraphSetCamera2Odom (tf_inverse e t),
                 GraphSetCameraMatrix (info_matrix inp2)],
                s\<lparr>the_odom2camera := t,
                  the_camera_model := info_model inp2,
                  the_camera_matrix := info_matrix inp2,
                  the_f_frame := (Frame_new e (l_img inp2) (r_img inp2) (info_model inp2))
                                   \<lparr>odom_pose := tf_mult e (odom_tf inp2) t\<rparr>,
                  the_state := INITIALIZING\<rparr>)"
  using assms by (simp add: msgsCallback_def getOdom2CameraTf_def Let_def)

text \<open>
  The theorem at the first two message sets of a session: a failed lookup, then a
  successful one.
\<close>

theorem C6_failed_lookup_keeps_uninitialized_witness:
  "the_state ex_tracker = NOT_INITIALIZED
   \<and> tf_lookup (ex_input 30 None) = None
   \<and> tf_lookup (ex_input 30 (Some 2)) = Some 2
   \<and> msgsCallback ex_env (ex_input 30 None) ex_tracker =
       Inr ([TfLookup], ex_tracker\<lparr>the_odom2camera := 0\<rparr>)
   \<and> msgsCallback ex_env (ex_input 30 (Some 2)) (ex_tracker\<lparr>the_odom2camera := 0\<rparr>) =
       Inr ([TfLookup, GraphSetCamera2Odom (- 2), GraphSetCameraMatrix 8], ex_initializing)"
proof -
  have h1: "the_state ex_tracker = NOT_INITIALIZED"
    by (simp add: ex_tracker_def)
  have h2: "tf_lookup (ex_input 30 None) = None"
    by (simp add: ex_input_def)
  have h3: "tf_lookup (ex_input 30 (Some 2)) = Some 2"
    by (simp add: ex_input_def)
  show ?thesis
    using C6_failed_lookup_keeps_uninitialized [OF h1 h2 h3, of ex_env] h1 h2 h3
    by (simp add: ex_env_def ex_input_def ex_states)
qed

subsection \<open>C7: camera model and session transform\<close>

text \<open>
  Claim C7, as the code has it. Take a session that starts \<open>NOT_INITIALIZED\<close> with
  any number of message sets whose lookup fails, then one whose lookup succeeds, then any
  others. Each failed call makes the lookup and leaves the tracker as it was but for the
  transform, which it sets to the identity. The successful call sets the transform to
  the one looked up and the camera model and matrix to those of its camera-info messages.
  Every later call leaves all three as they are and makes no lookup.
\<close>

theorem C7_session_constants:
  assumes "the_state s = NOT_INITIALIZED"
    and "\<forall>inp\<in>set fails. tf_lookup inp = None"
    and "tf_lookup ok = Some t"
  shows "\<exists>s1 tr.
           run_trace e s (fails @ ok # rest) =
             map (\<lambda>inp. ([TfLookup], s\<lparr>the_odom2camera := tf_identity e\<rparr>)) fails
             @ ([TfLookup, GraphSetCamera2Odom (tf_inverse e t),
                 GraphSetCameraMatrix (info_matrix ok)], s1) # tr
         \<and> the_odom2camera s1 = t
         \<and> the_camera_model s1 = info_model ok
         \<and> the_camera_matrix s1 = info_matrix ok
         \<and> (\<forall>(evs, s')\<in>set tr.
               the_odom2camera s' = t \<and> the_camera_model s' = info_model ok
               \<and> the_camera_matrix s' = info_matrix ok \<and> TfLookup \<notin> set evs)"
proof -
  let ?s0 = "if fails = [] then s else s\<lparr>the_odom2camera := tf_identity e\<rparr>"
  let ?s1 = "?s0\<lparr>the_odom2camera := t,
                 the_camera_model := info_model ok,
                 the_camera_matrix := info_matrix ok,
                 the_f_frame := (Frame_new e (l_img ok) (r_img ok) (info_model ok))
                                  \<lparr>odom_pose := tf_mult e (odom_tf ok) t\<rparr>,
                 the_state := INITIALIZING\<rparr>"
  have s0: "the_state ?s0 = NOT_INITIALIZED"
    using assms(1) by simp
  have r: "msgsCallback e ok ?s0 =
      Inr ([TfLookup, GraphSetCamera2Odom (tf_inverse e t),
            GraphSetCameraMatrix (info_matrix ok)], ?s1)"
    using s0 assms(3) by (simp add: msgsCallback_def getOdom2CameraTf_def Let_def)
  have run: "run_trace e s (fails @ ok # rest) =
             map (\<lambda>inp. ([TfLookup], s\<lparr>the_odom2camera := tf_identity e\<rparr>)) fails
             @ ([TfLookup, GraphSetCamera2Odom (tf_inverse e t),
                 GraphSetCameraMatrix (info_matrix ok)], ?s1) # run_trace e ?s1 rest"
    using run_trace_failed_lookups [OF assms(1,2), of e "ok # rest"] r by simp
  have s1: "the_state ?s1 \<noteq> NOT_INITIALIZED" by simp
  have later: "\<forall>(evs, s')\<in>set (run_trace e ?s1 rest).
               the_odom2camera s' = t \<and> the_camera_model s' = info_model ok
               \<and> the_camera_matrix s' = info_matrix ok \<and> TfLookup \<notin> set evs"
    using run_trace_initialized [OF s1] by fastforce
  have "the_odom2camera ?s1 = t" "the_camera_model ?s1 = info_model ok"
    "the_camera_matrix ?s1 = info_matrix ok"
    by simp_all
  with run later show ?thesis by blast
qed

text \<open>
  The theorem at a session of three message sets: a failed lookup, a successful one, and
  a tracking call.
\<close>

theorem C7_session_constants_witness:
  "the_state ex_tracker = NOT_INITIALIZED
   \<and> tf_lookup (ex_input 30 None) = None
   \<and> tf_lookup (ex_input 30 (Some 2)) = Some 2
   \<and> run_trace ex_env ex_tracker
        ([ex_input 30 None] @ ex_input 30 (Some 2) # [ex_input 30 None]) =
       [([TfLookup], ex_tracker\<lparr>the_odom2camera := 0\<rparr>),
        ([TfLookup, GraphSetCamera2Odom (- 2), GraphSetCameraMatrix 8], ex_initializing),
        ([SolvePnPRansac (ex_solve 30 0 True), PublisherUpdate,
          MapAddPoints (ex_image_frame 30 3 0 [30, 31, 32])], ex_working)]
   \<and> the_camera_model (ex_tracker\<lparr>the_odom2camera := 0\<rparr>) = the_camera_model ex_tracker
   \<and> the_camera_matrix (ex_tracker\<lparr>the_odom2camera := 0\<rparr>) = the_camera_matrix ex_tracker
   \<and> the_odom2camera ex_initializing = 2 \<and> the_odom2camera ex_working = 2
   \<and> the_camera_model ex_initializing = 7 \<and> the_camera_model ex_working = 7
   \<and> the_camera_matrix ex_initializing = 8 \<and> the_camera_matrix ex_working = 8"
proof -
  have h1: "the_state ex_tracker = NOT_INITIALIZED"
    by (simp add: ex_tracker_def)
  have h2: "\<forall>inp\<in>set [ex_input 30 None]. tf_lookup inp = None"
    by (simp add: ex_input_def)
  have h3: "tf_lookup (ex_input 30 (Some 2)) = Some 2"
    by (simp add: ex_input_def)
  have run: "run_trace ex_env ex_tracker
        ([ex_input 30 None] @ ex_input 30 (Some 2) # [ex_input 30 None]) =
       [([TfLookup], ex_tracker\<lparr>the_odom2camera := 0\<rparr>),
        ([TfLookup, GraphSetCamera2Odom (- 2), GraphSetCameraMatrix 8], ex_initializing),
        ([SolvePnPRansac (ex_solve 30 0 True), PublisherUpdate,
          MapAddPoints (ex_image_frame 30 3 0 [30, 31, 32])], ex_working)]"
    using ex_session_retry by simp
  show ?thesis
    using C7_session_constants [OF h1 h2 h3, of ex_env "[ex_input 30 None]"] h1 h3 run
    by (simp add: ex_input_def ex_initializing_def ex_working_def)
qed

text \<open>
  Claim C7 as it is worded fails at a session whose first lookup fails: the transform
  member, 5 before the session, is 0 (the identity) after the failed call and 2 after the
  successful one, so it is assigned in both message sets.
\<close>

theorem C7_counterexample:
  "the_state ex_tracker = NOT_INITIALIZED
   \<and> tf_lookup (ex_input 30 None) = None
   \<and> run_trace ex_env ex_tracker [ex_input 30 None, ex_input 30 (Some 2)] =
       [([TfLookup], ex_tracker\<lparr>the_odom2camera := 0\<rparr>),
        ([TfLookup, GraphSetCamera2Odom (- 2), GraphSetCameraMatrix 8], ex_initializing)]
   \<and> the_odom2camera ex_tracker = 5
   \<and> the_odom2camera (ex_tracker\<lparr>the_odom2camera := 0\<rparr>) = 0
   \<and> the_odom2camera ex_initializing = 2"
  by (simp add: ex_call_failed ex_call_init_retry)
     (simp add: ex_tracker_def ex_initializing_def ex_input_def)

subsection \<open>C8: the arguments of the pose solver\<close>

text \<open>
  Claim C8. A tracking call with at least \<open>MIN_INLIERS\<close> accepted correspondences
  makes exactly one solver call. Its object points are the 3D points of the current frame
  at the \<^verbatim>\<open>queryIdx\<close> of each correspondence, its image points the keypoint positions of
  the fixed frame at the \<^verbatim>\<open>trainIdx\<close>; it gets the camera matrix of the session, 100
  iterations, the reprojection error 1.3 and \<open>MAX_INLIERS\<close>. The inlier count of the
  current frame is the size of the inlier set the solver returned.
\<close>

theorem C8_solver_arguments:
  assumes "the_state s \<noteq> NOT_INITIALIZED"
    and "msgsCallback e inp s = Inr (evs, s')"
    and "MIN_INLIERS e \<le> length (cycle_matches e inp s)"
  shows "solve_calls evs =
        [\<lparr>objectPoints = map (\<lambda>m. camera_points (cycle_frame e inp s) ! queryIdx m)
                             (cycle_matches e inp s),
          imagePoints = map (\<lambda>m. pt (left_kp (the_f_frame s) ! trainIdx m))
                            (cycle_matches e inp s),
          cameraMatrix = the_camera_matrix s,
          distCoeffs = Mat_empty e,
          rvec_in = the_rvec s,
          tvec_in = the_tvec s,
          useExtrinsicGuess = (\<not> the_reset_fixed_frame s),
          iterationsCount = 100,
          reprojectionError = 13 / 10,
          minInliersCount = MAX_INLIERS e\<rparr>]
      \<and> (the_rvec s', the_tvec s', the_inliers s') = solvePnPRansac e (hd (solve_calls evs))
      \<and> inliers_num (the_c_frame s') = int (length (the_inliers s'))"
proof -
  have "inliers_num (the_c_frame s') = int (length (the_inliers s'))"
    using msgsCallback_cycle(2) [OF assms(1,2)] by simp
  with msgsCallback_solve [OF assms] show ?thesis by simp
qed

text \<open>
  The theorem at the working tracker and the image 40.
\<close>

theorem C8_solver_arguments_witness:
  "the_state ex_working \<noteq> NOT_INITIALIZED
   \<and> msgsCallback ex_env (ex_input 40 None) ex_working =
       Inr ([SolvePnPRansac (ex_solve 40 1 True), PublisherUpdate,
             MapAddPoints (ex_image_frame 40 3 0 [40, 41, 42])], ex_replaced)
   \<and> MIN_INLIERS ex_env \<le> length (cycle_matches ex_env (ex_input 40 None) ex_working)
   \<and> solve_calls [SolvePnPRansac (ex_solve 40 1 True), PublisherUpdate,
             MapAddPoints (ex_image_frame 40 3 0 [40, 41, 42])] = [ex_solve 40 1 True]
   \<and> objectPoints (ex_solve 40 1 True) = [40, 41]
   \<and> imagePoints (ex_solve 40 1 True) = [10, 10]
   \<and> (the_rvec ex_replaced, the_tvec ex_replaced, the_inliers ex_replaced)
       = solvePnPRansac ex_env (ex_solve 40 1 True)
   \<and> inliers_num (the_c_frame ex_replaced) = int (length (the_inliers ex_replaced))"
proof -
  have h1: "the_state ex_working \<noteq> NOT_INITIALIZED"
    by (simp add: ex_working_def)
  have h3: "MIN_INLIERS ex_env \<le> length (cycle_matches ex_env (ex_input 40 None) ex_working)"
    by (simp add: ex_cycle_matches ex_thresholds ex_accepted_def)
  show ?thesis
    using C8_solver_arguments [OF h1 ex_call_replace h3] h1 ex_call_replace h3
    by (simp add: ex_solve_def ex_replaced_def ex_image_frame_def)
qed

subsection \<open>C9: map growth at the transition\<close>

text \<open>
  Claim C9. The call that reaches the threshold while initializing moves the tracker to
  \<open>WORKING\<close>; the fixed frame it leaves is the previous fixed frame after
  \<^verbatim>\<open>computeWorldPoints\<close> and \<^verbatim>\<open>clusterWorldpoints\<close>, and that frame is the only one
  handed to the map: the current frame is neither the reference nor added.
\<close>

theorem C9_transition_grows_map_from_fixed_frame:
  assumes "the_state s = INITIALIZING"
    and "msgsCallback e inp s = Inr (evs, s')"
    and "MIN_INLIERS e \<le> length (the_inliers s')"
  shows "the_state s' = WORKING
       \<and> the_f_frame s' = clusterWorldpoints e (computeWorldPoints e (the_f_frame s))
       \<and> map_calls evs = [clusterWorldpoints e (computeWorldPoints e (the_f_frame s))]"
proof -
  have ni: "the_state s \<noteq> NOT_INITIALIZED"
    using assms(1) by simp
  note ff = msgsCallback_fixed_frame [OF ni assms(2)]
  show ?thesis
    using ff(1) ff(2) ff(4) assms(1,3) by simp
qed

text \<open>
  The theorem at the second message set of the small session.
\<close>

theorem C9_transition_grows_map_from_fixed_frame_witness:
  "the_state ex_initializing = INITIALIZING
   \<and> msgsCallback ex_env (ex_input 30 None) ex_initializing =
       Inr ([SolvePnPRansac (ex_solve 30 0 True), PublisherUpdate,
             MapAddPoints (ex_image_frame 30 3 0 [30, 31, 32])], ex_working)
   \<and> MIN_INLIERS ex_env \<le> length (the_inliers ex_working)
   \<and> the_state ex_working = WORKING
   \<and> the_f_frame ex_working = ex_image_frame 30 3 0 [30, 31, 32]
   \<and> map_calls [SolvePnPRansac (ex_solve 30 0 True), PublisherUpdate,
             MapAddPoints (ex_image_frame 30 3 0 [30, 31, 32])]
       = [ex_image_frame 30 3 0 [30, 31, 32]]"
proof -
  have h1: "the_state ex_initializing = INITIALIZING"
    by (simp add: ex_initializing_def)
  have h3: "MIN_INLIERS ex_env \<le> length (the_inliers ex_working)"
    by (simp add: ex_working_def ex_env_def)
  show ?thesis
    using C9_transition_grows_map_from_fixed_frame [OF h1 ex_call_good h3] h1 ex_call_good h3
    by (simp add: ex_working_def)
qed

subsection \<open>C10: the stored pose across sparse calls\<close>

text \<open>
  Claim C10. Take any number of consecutive tracking calls that all have fewer than
  \<open>MIN_INLIERS\<close> accepted correspondences. All of them complete, none calls the solver,
  and each leaves \<^verbatim>\<open>rvec_\<close> and \<^verbatim>\<open>tvec_\<close> as they were before the first of them. A
  call after them that does run the solver passes it exactly these values: the pose of
  the last call that ran the solver, however many sparse calls lie in between.
\<close>

theorem C10_sparse_calls_keep_pose:
  assumes "the_state s \<noteq> NOT_INITIALIZED"
    and "\<forall>k<length inps.
           length (cycle_matches e (inps ! k) (pre_state e s inps k)) < MIN_INLIERS e"
    and "msgsCallback e inp (pre_state e s inps (length inps)) = Inr (evs, s')"
    and "MIN_INLIERS e \<le> length (cycle_matches e inp (pre_state e s inps (length inps)))"
  shows "length (run_trace e s inps) = length inps
       \<and> (\<forall>k<length inps.
             solve_calls (calls_of e s inps k) = []
             \<and> the_rvec (post_state e s inps k) = the_rvec s
             \<and> the_tvec (post_state e s inps k) = the_tvec s)
       \<and> map rvec_in (solve_calls evs) = [the_rvec s]
       \<and> map tvec_in (solve_calls evs) = [the_tvec s]"
proof -
  note sp = sparse_session [OF assms(1,2)]
  from sp have ni: "the_state (pre_state e s inps (length inps)) \<noteq> NOT_INITIALIZED"
    by simp
  note sv = msgsCallback_solve(1) [OF ni assms(3,4)]
  have "map rvec_in (solve_calls evs) = [the_rvec s]"
    "map tvec_in (solve_calls evs) = [the_tvec s]"
    using sp by (simp_all add: sv)
  with sp show ?thesis by simp
qed

text \<open>
  The theorem at a sparse call after the replacement of the small session, followed by
  a call that runs the solver.
\<close>

theorem C10_sparse_calls_keep_pose_witness:
  "the_state ex_replaced \<noteq> NOT_INITIALIZED
   \<and> length (cycle_matches ex_env (ex_input 0 None) ex_replaced) < MIN_INLIERS ex_env
   \<and> run_trace ex_env ex_replaced [ex_input 0 None] =
       [([PublisherUpdate, MapAddPoints (ex_image_frame 0 3 0 [0, 1, 2])], ex_sparse)]
   \<and> the_rvec ex_sparse = the_rvec ex_replaced
   \<and> the_tvec ex_sparse = the_tvec ex_replaced
   \<and> msgsCallback ex_env (ex_input 30 None) ex_sparse =
       Inr ([SolvePnPRansac (ex_solve 30 2 False), PublisherUpdate],
            ex_working\<lparr>the_f_frame := ex_image_frame 0 3 0 [0, 1, 2],
                       the_rvec := 3, the_tvec := 3\<rparr>)
   \<and> rvec_in (ex_solve 30 2 False) = the_rvec ex_replaced
   \<and> tvec_in (ex_solve 30 2 False) = the_tvec ex_replaced"
proof -
  have run: "run_trace ex_env ex_replaced [ex_input 0 None] =
       [([PublisherUpdate, MapAddPoints (ex_image_frame 0 3 0 [0, 1, 2])], ex_sparse)]"
    by (simp add: ex_call_sparse)
  have pre: "pre_state ex_env ex_replaced [ex_input 0 None] (length [ex_input 0 None]) = ex_sparse"
    unfolding pre_state_def run by simp
  have h1: "the_state ex_replaced \<noteq> NOT_INITIALIZED"
    by (simp add: ex_replaced_def)
  have h0: "length (cycle_matches ex_env (ex_input 0 None) ex_replaced) < MIN_INLIERS ex_env"
    by (simp add: ex_cycle_matches ex_thresholds)
  then have h2: "\<forall>k<length [ex_input 0 None].
      length (cycle_matches ex_env ([ex_input 0 None] ! k)
                (pre_state ex_env ex_replaced [ex_input 0 None] k)) < MIN_INLIERS ex_env"
    by (simp add: pre_state_0)
  have h3: "msgsCallback ex_env (ex_input 30 None)
        (pre_state ex_env ex_replaced [ex_input 0 None] (length [ex_input 0 None])) =
       Inr ([SolvePnPRansac (ex_solve 30 2 False), PublisherUpdate],
            ex_working\<lparr>the_f_frame := ex_image_frame 0 3 0 [0, 1, 2],
                       the_rvec := 3, the_tvec := 3\<rparr>)"
    unfolding pre by (rule ex_call_after_sparse)
  have h4: "MIN_INLIERS ex_env \<le> length (cycle_matches ex_env (ex_input 30 None)
        (pre_state ex_env ex_replaced [ex_input 0 None] (length [ex_input 0 None])))"
    unfolding pre
    by (simp add: cycle_matches_def cycle_frame_def ex_env_def ex_input_def ex_states
        ex_ratio_filter ex_accepted_def)
  show ?thesis
    using C10_sparse_calls_keep_pose [OF h1 h2 h3 h4] h1 h0 run ex_call_after_sparse
    by (simp add: ex_sparse_def ex_replaced_def ex_solve_def)
qed

end
